theory Spec2Isabelle
  imports Main "HOL-Library.Sublist"
begin

section \<open>Data model\<close>

text \<open>
  Exceptions of the TypeScript sources are values: \<open>Error msg\<close> is
  \<^verbatim>\<open>throw new Error(msg)\<close>, \<open>TypeError\<close> is the runtime's error on a
  property read of \<^verbatim>\<open>undefined\<close> (for example \<^verbatim>\<open>xs[0].$value\<close> on an
  empty array).
\<close>

datatype error = Error string | TypeError string

text \<open>
  A node of the external parser's tree: \<^verbatim>\<open>$name\<close>, \<^verbatim>\<open>$value\<close>,
  \<^verbatim>\<open>$children\<close>. A match result additionally carries its \<^verbatim>\<open>$parent\<close>
  chain (nearest parent first) and \<^verbatim>\<open>sourceLocation.path\<close>.
\<close>

datatype TreeNode = TreeNode (nodeName: string) (nodeValue: string) (nodeChildren: "TreeNode list")

record MatchResult =
  node :: TreeNode
  parents :: "TreeNode list"
  sourceLocationPath :: string

datatype Access = PublicFunctionAccess | PrivateFunctionAccess | PublicMethodAccess | PrivateMethodAccess

datatype EnclosingScope =
    ClassAroundMethod (scopeName: string) (exported: bool) (outerScope: "EnclosingScope option")
  | EnclosingNamespace (scopeName: string) (exported: bool) (outerScope: "EnclosingScope option")

record FunctionCallIdentifier =
  enclosingScope :: "EnclosingScope option"
  name :: string
  filePath :: string
  access :: Access

text \<open>
  \<^verbatim>\<open>AddImport.ImportIdentifier\<close>. The declaration under \<^verbatim>\<open>src/\<close> has
  \<^verbatim>\<open>kind\<close>, \<^verbatim>\<open>name\<close>, \<^verbatim>\<open>location\<close> for a library import and
  \<^verbatim>\<open>kind\<close>, \<^verbatim>\<open>name\<close>, \<^verbatim>\<open>localPath\<close> for a local one; the optional
  \<^verbatim>\<open>externalPath\<close> of a local import is the field the repository's tests construct.
\<close>

datatype ImportIdentifier =
    LibraryImport (importName: string) (location: string)
  | LocalImport (importName: string) (localPath: string) (externalPath: "string option")

record PopulateInTests =
  dummyValue :: string
  additionalImport :: "ImportIdentifier option"

text \<open>
  The four requirement classes; \<^verbatim>\<open>why?: any\<close> is absent, a free-form reason,
  or the requirement that gave rise to this one.
\<close>

datatype Requirement =
    isAddParameterRequirement: AddParameterRequirement
      (functionWithAdditionalParameter: FunctionCallIdentifier)
      (parameterType: ImportIdentifier)
      (parameterName: string)
      (populateInTests: PopulateInTests)
      (why: Why)
  | isPassArgumentRequirement: PassArgumentRequirement
      (enclosingFunction: FunctionCallIdentifier)
      (functionWithAdditionalParameter: FunctionCallIdentifier)
      (argumentValue: string)
      (why: Why)
  | isPassDummyInTests: PassDummyInTestsRequirement
      (functionWithAdditionalParameter: FunctionCallIdentifier)
      (passDummyValue: string)
      (passAdditionalImport: "ImportIdentifier option")
      (why: Why)
  | isAddMigrationRequirement: AddMigrationRequirement
      (downstreamRequirement: Requirement)
      (why: Why)
and Why = NoReason | Reason string | Because Requirement

subsection \<open>Consequences.ts\<close>

record Consequences =
  concomitantChanges :: "Requirement list"
  prerequisiteChanges :: "Requirement list"

definition combineConsequences :: "Consequences \<Rightarrow> Consequences \<Rightarrow> Consequences" where
  "combineConsequences c1 c2 =
     \<lparr> concomitantChanges = concomitantChanges c1 @ concomitantChanges c2,
       prerequisiteChanges = prerequisiteChanges c1 @ prerequisiteChanges c2 \<rparr>"

definition concomitantChange :: "Requirement \<Rightarrow> Consequences" where
  "concomitantChange r = \<lparr> concomitantChanges = [r], prerequisiteChanges = [] \<rparr>"

definition emptyConsequences :: Consequences where
  "emptyConsequences = \<lparr> concomitantChanges = [], prerequisiteChanges = [] \<rparr>"

subsection \<open>Node helpers and node-relative path expressions (addParameterImpl.ts)\<close>

definition childrenNamed :: "TreeNode \<Rightarrow> string \<Rightarrow> TreeNode list" where
  "childrenNamed parent nm = filter (\<lambda>child. nodeName child = nm) (nodeChildren parent)"

text \<open>
  \<^verbatim>\<open>childrenNamed(parent, "Identifier")[0].$value\<close>: a node without an
  \<open>Identifier\<close> child makes the property read fail.
\<close>

definition identifierOf :: "TreeNode \<Rightarrow> error + string" where
  "identifierOf parent =
     (case childrenNamed parent ''Identifier'' of
        [] \<Rightarrow> Inl (TypeError ''Cannot read property $value of undefined'')
      | i # _ \<Rightarrow> Inr (nodeValue i))"

definition isNamespaceModule :: "TreeNode \<Rightarrow> bool" where
  "isNamespaceModule tn = list_ex (\<lambda>c. nodeName c = ''ModuleBlock'') (nodeChildren tn)"

text \<open>
  The expressions handed to \<^verbatim>\<open>evaluateExpression\<close> on a single node use the child
  axis only: \<^verbatim>\<open>/A/B\<close> selects the children named \<open>B\<close> of the children
  named \<open>A\<close>, in document order.
\<close>

definition childAxis :: "string \<Rightarrow> TreeNode list \<Rightarrow> TreeNode list" where
  "childAxis nm ns = concat (map (\<lambda>n. childrenNamed n nm) ns)"

text \<open>\<^verbatim>\<open>/SyntaxList/${astElement}\<close>; the result is used as a condition.\<close>

definition hasKeyword :: "TreeNode \<Rightarrow> string \<Rightarrow> bool" where
  "hasKeyword fnDeclaration astElement =
     (childAxis astElement (childAxis ''SyntaxList'' [fnDeclaration]) \<noteq> [])"

definition determineAccess :: "TreeNode \<Rightarrow> Access" where
  "determineAccess fnDeclaration =
     (if hasKeyword fnDeclaration ''ExportKeyword'' then PublicFunctionAccess
      else if hasKeyword fnDeclaration ''PrivateKeyword'' \<or> hasKeyword fnDeclaration ''ProtectedKeyword''
        then PrivateMethodAccess
      else PrivateFunctionAccess)"

text \<open>
  \<^verbatim>\<open>determineScope\<close> walks the \<^verbatim>\<open>$parent\<close> chain. The source links each new
  level into the previous one by assignment (\<^verbatim>\<open>topLevel.enclosingScope = thisLevel\<close>) and
  returns the first level found; here the same chain is built on the way back. The
  argument is the chain of parents of the node, nearest first.
\<close>

fun determineScope :: "TreeNode list \<Rightarrow> error + EnclosingScope option" where
  "determineScope [] = Inr None"
| "determineScope (p # ps) =
     (if nodeName p = ''ClassDeclaration'' then
        (case identifierOf p of
           Inl e \<Rightarrow> Inl e
         | Inr n \<Rightarrow>
            (case determineScope ps of
               Inl e \<Rightarrow> Inl e
             | Inr outer \<Rightarrow> Inr (Some (ClassAroundMethod n True outer))))
      else if nodeName p = ''ModuleDeclaration'' \<and> isNamespaceModule p then
        (case identifierOf p of
           Inl e \<Rightarrow> Inl e
         | Inr n \<Rightarrow>
            (case determineScope ps of
               Inl e \<Rightarrow> Inl e
             | Inr outer \<Rightarrow> Inr (Some (EnclosingNamespace n True outer))))
      else determineScope ps)"

text \<open>
  The identifier of an enclosing declaration, as \<^verbatim>\<open>consequencesOfFunctionCall\<close> of
  addParameterImpl.ts builds it inline:
  \<^verbatim>\<open>{ enclosingScope: determineScope(enclosingFunction), name: enclosingFunctionName,
     filePath, access: determineAccess(enclosingFunction) }\<close>.
\<close>

definition functionCallIdentifierFromTreeNode :: "MatchResult \<Rightarrow> error + FunctionCallIdentifier" where
  "functionCallIdentifierFromTreeNode enclosingFn =
     (case identifierOf (node enclosingFn) of
        Inl e \<Rightarrow> Inl e
      | Inr enclosingFunctionName \<Rightarrow>
         (case determineScope (parents enclosingFn) of
            Inl e \<Rightarrow> Inl e
          | Inr scope \<Rightarrow>
              Inr \<lparr> enclosingScope = scope, name = enclosingFunctionName,
                    filePath = sourceLocationPath enclosingFn,
                    access = determineAccess (node enclosingFn) \<rparr>))"

text \<open>\<^verbatim>\<open>/SyntaxList/Parameter[/TypeReference[@value='${typeName}']]/Identifier\<close>\<close>

definition suitableParameterMatches :: "TreeNode \<Rightarrow> string \<Rightarrow> TreeNode list" where
  "suitableParameterMatches enclosingFn typeName =
     childAxis ''Identifier''
       (filter (\<lambda>p. list_ex (\<lambda>t. nodeValue t = typeName) (childrenNamed p ''TypeReference''))
          (childAxis ''Parameter'' (childAxis ''SyntaxList'' [enclosingFn])))"

subsection \<open>Consequences of one call site\<close>

definition consequencesOfFunctionCall :: "Requirement \<Rightarrow> MatchResult \<Rightarrow> error + Consequences" where
  "consequencesOfFunctionCall requirement enclosingFn =
     (if prefix ''test'' (sourceLocationPath enclosingFn) then Inr emptyConsequences
      else
        case identifierOf (node enclosingFn) of
          Inl e \<Rightarrow> Inl e
        | Inr enclosingFunctionName \<Rightarrow>
           (case suitableParameterMatches (node enclosingFn)
                   (importName (parameterType requirement)) of
              ident # _ \<Rightarrow>
                (case functionCallIdentifierFromTreeNode enclosingFn of
                   Inl e \<Rightarrow> Inl e
                 | Inr enclosing \<Rightarrow>
                     Inr (concomitantChange
                       (PassArgumentRequirement enclosing
                          (functionWithAdditionalParameter requirement)
                          (nodeValue ident) (Because requirement))))
            | [] \<Rightarrow>
                (case functionCallIdentifierFromTreeNode enclosingFn of
                   Inl e \<Rightarrow> Inl e
                 | Inr enclosing \<Rightarrow>
                     (let passArgument =
                            PassArgumentRequirement enclosing
                              (functionWithAdditionalParameter requirement)
                              (parameterName requirement) (Because requirement);
                          newParameterForMe =
                            AddParameterRequirement enclosing
                              (parameterType requirement) (parameterName requirement)
                              (populateInTests requirement) (Because passArgument)
                      in Inr \<lparr> concomitantChanges = [passArgument],
                               prerequisiteChanges = [newParameterForMe] \<rparr>))))"

subsection \<open>Path expressions handed to the external engine\<close>

text \<open>A value spliced between single quotes, as in \<^verbatim>\<open>[@value='${fn.name}']\<close>.\<close>

definition quoted :: "string \<Rightarrow> string" where
  "quoted s = CHR 0x27 # s @ [CHR 0x27]"

fun propertyAccessExpression :: "EnclosingScope option \<Rightarrow> string \<Rightarrow> string" where
  "propertyAccessExpression None soFar = soFar"
| "propertyAccessExpression (Some (ClassAroundMethod n ex outer)) soFar =
     propertyAccessExpression outer (n @ ''.'' @ soFar)"
| "propertyAccessExpression (Some (EnclosingNamespace n ex outer)) soFar =
     propertyAccessExpression outer (n @ ''.'' @ soFar)"

text \<open>
  \<^verbatim>\<open>isPrivateMethodAccess\<close> and \<^verbatim>\<open>isClassAroundMethod\<close> are the type guards on
  the \<^verbatim>\<open>kind\<close> tag of the two unions.
\<close>

definition functionCallPathExpression :: "FunctionCallIdentifier \<Rightarrow> string" where
  "functionCallPathExpression fn =
     (if access fn = PrivateMethodAccess then
        ''//CallExpression[/PropertyAccessExpression/Identifier[@value='' @ quoted (name fn) @ '']]''
      else if enclosingScope fn \<noteq> None then
        ''//CallExpression[/PropertyAccessExpression[@value=''
          @ quoted (propertyAccessExpression (enclosingScope fn) (name fn)) @ '']]''
      else ''//CallExpression[/Identifier[@value='' @ quoted (name fn) @ '']]'')"

definition isClassAroundMethod :: "EnclosingScope \<Rightarrow> bool" where
  "isClassAroundMethod s = (case s of ClassAroundMethod n ex outer \<Rightarrow> True | EnclosingNamespace n ex outer \<Rightarrow> False)"

text \<open>
  \<^verbatim>\<open>scopePathExpressionComponents\<close> does not recurse in the source: only the innermost
  scope contributes a component.
\<close>

definition scopePathExpressionComponents :: "EnclosingScope option \<Rightarrow> string list \<Rightarrow> string list" where
  "scopePathExpressionComponents s soFar =
     (case s of
        None \<Rightarrow> soFar
      | Some sc \<Rightarrow>
          (if isClassAroundMethod sc
           then ''ClassDeclaration[/Identifier[@value='' @ quoted (scopeName sc) @ '']]''
           else ''ModuleDeclaration[/Identifier[@value='' @ quoted (scopeName sc) @ '']]/ModuleBlock'')
          # soFar)"

text \<open>\<^verbatim>\<open>components.join("//")\<close>\<close>

fun joinWith :: "string \<Rightarrow> string list \<Rightarrow> string" where
  "joinWith sep [] = []"
| "joinWith sep [x] = x"
| "joinWith sep (x # y # ys) = x @ sep @ joinWith sep (y # ys)"

definition functionDeclarationPathExpression :: "FunctionCallIdentifier \<Rightarrow> string" where
  "functionDeclarationPathExpression fn =
     (let identification = ''[/Identifier[@value='' @ quoted (name fn) @ '']]'';
          methodOrFunction =
            (case enclosingScope fn of
               Some sc \<Rightarrow> if isClassAroundMethod sc then ''MethodDeclaration'' else ''FunctionDeclaration''
             | None \<Rightarrow> ''FunctionDeclaration'');
          components = scopePathExpressionComponents (enclosingScope fn) [] @ [methodOrFunction @ identification]
      in ''//'' @ joinWith ''//'' components)"

subsection \<open>The planner step: consequences of an AddParameter requirement\<close>

text \<open>
  \<^verbatim>\<open>matches.reduce((cc, m) => combineConsequences(cc, consequencesOfFunctionCall(requirement, m)),
  emptyConsequences)\<close>; an exception in the callback ends the reduction.
\<close>

fun reduceMatches :: "Requirement \<Rightarrow> Consequences \<Rightarrow> MatchResult list \<Rightarrow> error + Consequences" where
  "reduceMatches requirement cc [] = Inr cc"
| "reduceMatches requirement cc (functionCallMatch # ms) =
     (case consequencesOfFunctionCall requirement functionCallMatch of
        Inl e \<Rightarrow> Inl e
      | Inr c \<Rightarrow> reduceMatches requirement (combineConsequences cc c) ms)"

text \<open>
  \<^verbatim>\<open>findConsequencesOfAddParameter\<close> of the AddParameterRequirement module (the variant
  with migrations). The collaborators whose code is not part of the sources are
  arguments: the type guard \<^verbatim>\<open>isPublicFunctionAccess\<close>, \<^verbatim>\<open>globFromAccess\<close>, and
  \<^verbatim>\<open>findMatches(project, TypeScriptES6FileParser, glob, pathExpression)\<close> of the external
  query engine over a project of any type.
\<close>

definition findConsequencesOfAddParameter ::
  "(Access \<Rightarrow> bool) \<Rightarrow> (FunctionCallIdentifier \<Rightarrow> string) \<Rightarrow>
   ('p \<Rightarrow> string \<Rightarrow> string \<Rightarrow> MatchResult list) \<Rightarrow> 'p \<Rightarrow> Requirement \<Rightarrow> error + Consequences" where
  "findConsequencesOfAddParameter isPublicFunctionAccess globFromAccess findMatches project requirement =
     (let passDummyInTests =
            PassDummyInTestsRequirement (functionWithAdditionalParameter requirement)
              (dummyValue (populateInTests requirement))
              (additionalImport (populateInTests requirement)) NoReason;
          innerExpression = functionCallPathExpression (functionWithAdditionalParameter requirement);
          callWithinFunction = ''//FunctionDeclaration['' @ innerExpression @ '']'';
          callWithinMethod = ''//MethodDeclaration['' @ innerExpression @ '']'';
          testConsequences =
            (if isPublicFunctionAccess (access (functionWithAdditionalParameter requirement))
             then concomitantChange passDummyInTests else emptyConsequences);
          externalConsequences =
            concomitantChange (AddMigrationRequirement requirement (Because requirement));
          globalConsequences = combineConsequences testConsequences externalConsequences
      in case reduceMatches requirement emptyConsequences
                (findMatches project (globFromAccess (functionWithAdditionalParameter requirement))
                   (callWithinFunction @ ''|'' @ callWithinMethod)) of
           Inl e \<Rightarrow> Inl e
         | Inr srcConsequences \<Rightarrow> Inr (combineConsequences srcConsequences globalConsequences))"

section \<open>The executor\<close>

text \<open>
  An assignment \<^verbatim>\<open>n.$value = v\<close> to a node reached from a match result is a pending
  edit of the project, committed by the next \<^verbatim>\<open>project.flush()\<close>. The functions
  below return the edits they made, in order, next to their result.
\<close>

record ValueWrite =
  inMatch :: MatchResult
  target :: TreeNode
  newValue :: string

record Report =
  unimplemented :: "(Requirement \<times> string) list"
  implemented :: "Requirement list"

definition emptyReport :: Report where
  "emptyReport = \<lparr> unimplemented = [], implemented = [] \<rparr>"

definition reportUnimplemented :: "Requirement \<Rightarrow> string \<Rightarrow> Report" where
  "reportUnimplemented requirement msg = \<lparr> unimplemented = [(requirement, msg)], implemented = [] \<rparr>"

definition reportImplemented :: "Requirement \<Rightarrow> Report" where
  "reportImplemented requirement = \<lparr> unimplemented = [], implemented = [requirement] \<rparr>"

definition requireExactlyOne :: "TreeNode list \<Rightarrow> string \<Rightarrow> error + TreeNode" where
  "requireExactlyOne m msg = (case m of [x] \<Rightarrow> Inr x | _ \<Rightarrow> Inl (Error msg))"

subsection \<open>PassArgument\<close>

text \<open>
  The callback of \<^verbatim>\<open>matches.map\<close> in \<^verbatim>\<open>applyPassArgument\<close>, match by match; the
  first match without exactly one \<open>OpenParenToken\<close> child throws.
\<close>

fun passArgumentWrites :: "Requirement \<Rightarrow> MatchResult list \<Rightarrow> error + ValueWrite list" where
  "passArgumentWrites requirement [] = Inr []"
| "passArgumentWrites requirement (enclosingFn # ms) =
     (case requireExactlyOne (childAxis ''OpenParenToken'' [node enclosingFn]) ''wtf where is open paren'' of
        Inl e \<Rightarrow> Inl e
      | Inr openParen \<Rightarrow>
         (case passArgumentWrites requirement ms of
            Inl e \<Rightarrow> Inl e
          | Inr ws \<Rightarrow>
              Inr (\<lparr> inMatch = enclosingFn, target = openParen,
                      newValue = ''('' @ argumentValue requirement @ '', '' \<rparr> # ws)))"

definition applyPassArgument :: "MatchResult list \<Rightarrow> Requirement \<Rightarrow> error + Report \<times> ValueWrite list" where
  "applyPassArgument matches requirement =
     (if length matches = 0 then Inr (reportUnimplemented requirement ''Function not found'', [])
      else case passArgumentWrites requirement matches of
             Inl e \<Rightarrow> Inl e
           | Inr ws \<Rightarrow> Inr (reportImplemented requirement, ws))"

definition passArgument ::
  "('p \<Rightarrow> string \<Rightarrow> string \<Rightarrow> MatchResult list) \<Rightarrow> 'p \<Rightarrow> Requirement \<Rightarrow> error + Report \<times> ValueWrite list" where
  "passArgument findMatches project requirement =
     (let fullPathExpression =
            functionDeclarationPathExpression (enclosingFunction requirement)
            @ functionCallPathExpression (functionWithAdditionalParameter requirement)
      in applyPassArgument
           (findMatches project (filePath (enclosingFunction requirement)) fullPathExpression)
           requirement)"

subsection \<open>AddImport.addImport\<close>

text \<open>All nodes strictly below a node, in document order.\<close>

fun descendants :: "TreeNode \<Rightarrow> TreeNode list" where
  "descendants (TreeNode n v cs) = concat (map (\<lambda>c. c # descendants c) cs)"

text \<open>\<^verbatim>\<open>//A\<close> from a list of context nodes.\<close>

definition descendantAxis :: "string \<Rightarrow> TreeNode list \<Rightarrow> TreeNode list" where
  "descendantAxis nm ns = concat (map (\<lambda>n. filter (\<lambda>d. nodeName d = nm) (descendants n)) ns)"

text \<open>\<^verbatim>\<open>//ImportDeclaration//Identifier[@value='${name}']\<close>\<close>

definition existingImport :: "TreeNode \<Rightarrow> string \<Rightarrow> TreeNode list" where
  "existingImport source nm =
     filter (\<lambda>i. nodeValue i = nm)
       (descendantAxis ''Identifier'' (descendantAxis ''ImportDeclaration'' [source]))"

text \<open>\<^verbatim>\<open>//ImportDeclaration[//StringLiteral[@value='${location}']]\<close>\<close>

definition locationImportMatches :: "TreeNode \<Rightarrow> string \<Rightarrow> TreeNode list" where
  "locationImportMatches source loc =
     filter (\<lambda>d. list_ex (\<lambda>l. nodeValue l = loc) (descendantAxis ''StringLiteral'' [d]))
       (descendantAxis ''ImportDeclaration'' [source])"

definition calculateRelativePath :: "string \<Rightarrow> string \<Rightarrow> string" where
  "calculateRelativePath from to = to"

text \<open>
  \<^verbatim>\<open>text.replace(/{/, replacement)\<close>: the first \<open>{\<close> is replaced, a text without one
  is returned as it is. In the replacement string \<^verbatim>\<open>$$\<close> stands for \<open>$\<close>,
  \<^verbatim>\<open>$&\<close> for the matched text, \<^verbatim>\<open>$`\<close> and \<^verbatim>\<open>$'\<close> for the text before and
  after the match; the pattern has no groups, so every other \<open>$\<close> is literal.
\<close>

fun expandReplacement :: "string \<Rightarrow> string \<Rightarrow> string \<Rightarrow> string \<Rightarrow> string" where
  "expandReplacement matched before after [] = []"
| "expandReplacement matched before after [c] = [c]"
| "expandReplacement matched before after (c # d # rest) =
     (if c = CHR ''$'' \<and> d = CHR ''$'' then CHR ''$'' # expandReplacement matched before after rest
      else if c = CHR ''$'' \<and> d = CHR ''&'' then matched @ expandReplacement matched before after rest
      else if c = CHR ''$'' \<and> d = CHR 0x60 then before @ expandReplacement matched before after rest
      else if c = CHR ''$'' \<and> d = CHR 0x27 then after @ expandReplacement matched before after rest
      else c # expandReplacement matched before after (d # rest))"

fun replaceFirstBrace :: "string \<Rightarrow> string \<Rightarrow> string \<Rightarrow> string" where
  "replaceFirstBrace before [] replacement = before"
| "replaceFirstBrace before (c # rest) replacement =
     (if c = CHR ''{'' then before @ expandReplacement [c] before rest replacement @ rest
      else replaceFirstBrace (before @ [c]) rest replacement)"

definition addImport ::
  "('p \<Rightarrow> string \<Rightarrow> string \<Rightarrow> MatchResult list) \<Rightarrow> 'p \<Rightarrow> string \<Rightarrow> ImportIdentifier
     \<Rightarrow> error + bool \<times> ValueWrite list" where
  "addImport findMatches project path what =
     (case findMatches project path ''/SourceFile'' of
        [] \<Rightarrow> Inl (TypeError ''Cannot read property evaluateExpression of undefined'')
      | source # _ \<Rightarrow>
         (if existingImport (node source) (importName what) \<noteq> [] then Inr (False, [])
          else
            let loc = (case what of
                         LibraryImport n l \<Rightarrow> l
                       | LocalImport n lp ep \<Rightarrow> calculateRelativePath path lp)
            in case locationImportMatches (node source) loc of
                 locationImport # _ \<Rightarrow>
                   Inr (True,
                        [\<lparr> inMatch = source, target = locationImport,
                            newValue = replaceFirstBrace [] (nodeValue locationImport)
                                         (''{ '' @ importName what @ '','') \<rparr>])
               | [] \<Rightarrow>
                   (let newStatement =
                          ''import { '' @ importName what @ '' } from '' @
                          [CHR 0x22] @ loc @ [CHR 0x22] @ '';'' @ [CHR 0x0A]
                    in Inr (True,
                            [\<lparr> inMatch = source, target = node source,
                                newValue = newStatement @ nodeValue (node source) \<rparr>]))))"

subsection \<open>AddParameter\<close>

definition addParameter ::
  "('p \<Rightarrow> string \<Rightarrow> string \<Rightarrow> MatchResult list) \<Rightarrow> 'p \<Rightarrow> Requirement \<Rightarrow> error + Report \<times> ValueWrite list" where
  "addParameter findMatches project requirement =
     (case addImport findMatches project
             (filePath (functionWithAdditionalParameter requirement)) (parameterType requirement) of
        Inl e \<Rightarrow> Inl e
      | Inr (importAdded, importWrites) \<Rightarrow>
         (let matches = findMatches project (filePath (functionWithAdditionalParameter requirement))
                          (functionDeclarationPathExpression (functionWithAdditionalParameter requirement))
          in if length matches = 0 then
               Inr (reportUnimplemented requirement ''Function declaration not found'', importWrites)
             else if 1 < length matches then
               Inr (reportUnimplemented requirement
                      (''More than one function declaration matched. I'' @ [CHR 0x27] @ ''m confused.''),
                    importWrites)
             else
               (let functionDeclaration = hd matches
                in case requireExactlyOne (childAxis ''OpenParenToken'' [node functionDeclaration])
                          ''wtf where is open paren'' of
                     Inl e \<Rightarrow> Inl e
                   | Inr openParen \<Rightarrow>
                       Inr (reportImplemented requirement,
                            importWrites @
                            [\<lparr> inMatch = functionDeclaration, target = openParen,
                                newValue = ''('' @ parameterName requirement @ '': ''
                                           @ importName (parameterType requirement) @ '', '' \<rparr>]))))"

section \<open>The worklist planner of namespace AddParameter\<close>

text \<open>
  The editor module keeps its own declarations in \<^verbatim>\<open>namespace AddParameter\<close>: a
  function is identified by name and file path only, there are three kinds of
  requirement, and \<^verbatim>\<open>findConsequences\<close> closes a list of requirements under
  consequences with a worklist. Names of that namespace carry the prefix
  \<open>AddParameter_\<close>.
\<close>

record FunctionIdentifier =
  functionName :: string
  functionFilePath :: string

datatype AddParameter_Requirement =
    AddParameter_AddParameterRequirement
      (AddParameter_functionWithAdditionalParameter: FunctionIdentifier)
      (AddParameter_parameterType: ImportIdentifier)
      (AddParameter_parameterName: string)
      (AddParameter_dummyValue: string)
      (AddParameter_why: AddParameter_Why)
  | AddParameter_PassDummyInTestsRequirement
      (AddParameter_functionWithAdditionalParameter: FunctionIdentifier)
      (AddParameter_dummyValue: string)
      (AddParameter_why: AddParameter_Why)
  | AddParameter_PassArgumentRequirement
      (AddParameter_enclosingFunction: FunctionIdentifier)
      (AddParameter_functionWithAdditionalParameter: FunctionIdentifier)
      (AddParameter_argumentValue: string)
      (AddParameter_why: AddParameter_Why)
and AddParameter_Why =
    AddParameter_NoReason
  | AddParameter_Reason string
  | AddParameter_Because AddParameter_Requirement

definition AddParameter_kind :: "AddParameter_Requirement \<Rightarrow> string" where
  "AddParameter_kind r =
     (case r of
        AddParameter_AddParameterRequirement f t n d w \<Rightarrow> ''Add Parameter''
      | AddParameter_PassDummyInTestsRequirement f d w \<Rightarrow> ''Pass Dummy In Tests''
      | AddParameter_PassArgumentRequirement e f a w \<Rightarrow> ''Pass Argument'')"

definition AddParameter_isAddParameterRequirement :: "AddParameter_Requirement \<Rightarrow> bool" where
  "AddParameter_isAddParameterRequirement r = (AddParameter_kind r = ''Add Parameter'')"

definition AddParameter_isPassArgumentRequirement :: "AddParameter_Requirement \<Rightarrow> bool" where
  "AddParameter_isPassArgumentRequirement r = (AddParameter_kind r = ''Pass Argument'')"

definition AddParameter_sameFunctionIdentifier :: "FunctionIdentifier \<Rightarrow> FunctionIdentifier \<Rightarrow> bool" where
  "AddParameter_sameFunctionIdentifier r1 r2 =
     (functionName r1 = functionName r2 \<and> functionFilePath r1 = functionFilePath r2)"

definition AddParameter_sameRequirement :: "AddParameter_Requirement \<Rightarrow> AddParameter_Requirement \<Rightarrow> bool" where
  "AddParameter_sameRequirement r1 r2 =
     (AddParameter_kind r1 = AddParameter_kind r2 \<and>
      AddParameter_sameFunctionIdentifier
        (AddParameter_functionWithAdditionalParameter r1) (AddParameter_functionWithAdditionalParameter r2) \<and>
      functionFilePath (AddParameter_functionWithAdditionalParameter r1)
        = functionFilePath (AddParameter_functionWithAdditionalParameter r2) \<and>
      (\<not> AddParameter_isPassArgumentRequirement r1 \<or>
       AddParameter_sameFunctionIdentifier (AddParameter_enclosingFunction r1) (AddParameter_enclosingFunction r2)))"

text \<open>\<^verbatim>\<open>fn.match(/\./)\<close> asks whether the name contains a dot.\<close>

definition AddParameter_functionCallPathExpression :: "string \<Rightarrow> string" where
  "AddParameter_functionCallPathExpression fn =
     (if CHR ''.'' \<in> set fn
      then ''//CallExpression[/PropertyAccessExpression[@value='' @ quoted fn @ '']]''
      else ''//CallExpression[/Identifier[@value='' @ quoted fn @ '']]'')"

text \<open>The callback of \<^verbatim>\<open>_.flatMap(matches, enclosingFunction => ...)\<close>, match by match.\<close>

fun AddParameter_consequencesOfMatches ::
  "AddParameter_Requirement \<Rightarrow> MatchResult list \<Rightarrow> error + AddParameter_Requirement list" where
  "AddParameter_consequencesOfMatches requirement [] = Inr []"
| "AddParameter_consequencesOfMatches requirement (enclosingFn # ms) =
     (case identifierOf (node enclosingFn) of
        Inl e \<Rightarrow> Inl e
      | Inr enclosingFunctionName \<Rightarrow>
         (let here = \<lparr> functionName = enclosingFunctionName,
                       functionFilePath = sourceLocationPath enclosingFn \<rparr>;
              these =
                (case suitableParameterMatches (node enclosingFn)
                        (importName (AddParameter_parameterType requirement)) of
                   ident # _ \<Rightarrow>
                     [AddParameter_PassArgumentRequirement here
                        (AddParameter_functionWithAdditionalParameter requirement)
                        (nodeValue ident) AddParameter_NoReason]
                 | [] \<Rightarrow>
                     [AddParameter_AddParameterRequirement here
                        (AddParameter_parameterType requirement)
                        (AddParameter_parameterName requirement)
                        (AddParameter_dummyValue requirement) AddParameter_NoReason,
                      AddParameter_PassArgumentRequirement here
                        (AddParameter_functionWithAdditionalParameter requirement)
                        (AddParameter_parameterName requirement) AddParameter_NoReason])
          in case AddParameter_consequencesOfMatches requirement ms of
               Inl e \<Rightarrow> Inl e
             | Inr others \<Rightarrow> Inr (these @ others)))"

definition AddParameter_findConsequencesOfAddParameter ::
  "('p \<Rightarrow> string \<Rightarrow> string \<Rightarrow> MatchResult list) \<Rightarrow> 'p \<Rightarrow> AddParameter_Requirement
     \<Rightarrow> error + AddParameter_Requirement list" where
  "AddParameter_findConsequencesOfAddParameter findMatches project requirement =
     (let passDummyInTests =
            AddParameter_PassDummyInTestsRequirement
              (AddParameter_functionWithAdditionalParameter requirement)
              (AddParameter_dummyValue requirement) AddParameter_NoReason;
          innerExpression =
            AddParameter_functionCallPathExpression
              (functionName (AddParameter_functionWithAdditionalParameter requirement))
      in case AddParameter_consequencesOfMatches requirement
                (findMatches project ''src/**/*.ts''
                   (''//FunctionDeclaration['' @ innerExpression @ '']'')) of
           Inl e \<Rightarrow> Inl e
         | Inr srcConsequences \<Rightarrow> Inr (srcConsequences @ [passDummyInTests]))"

text \<open>\<^verbatim>\<open>{ ...c, why: requirement }\<close>\<close>

definition AddParameter_withWhy :: "AddParameter_Requirement \<Rightarrow> AddParameter_Requirement \<Rightarrow> AddParameter_Requirement" where
  "AddParameter_withWhy requirement c =
     (case c of
        AddParameter_AddParameterRequirement f t n d w \<Rightarrow>
          AddParameter_AddParameterRequirement f t n d (AddParameter_Because requirement)
      | AddParameter_PassDummyInTestsRequirement f d w \<Rightarrow>
          AddParameter_PassDummyInTestsRequirement f d (AddParameter_Because requirement)
      | AddParameter_PassArgumentRequirement e f a w \<Rightarrow>
          AddParameter_PassArgumentRequirement e f a (AddParameter_Because requirement))"

definition AddParameter_findConsequencesOfOne ::
  "('p \<Rightarrow> string \<Rightarrow> string \<Rightarrow> MatchResult list) \<Rightarrow> 'p \<Rightarrow> AddParameter_Requirement
     \<Rightarrow> error + AddParameter_Requirement list" where
  "AddParameter_findConsequencesOfOne findMatches project requirement =
     (if AddParameter_isAddParameterRequirement requirement then
        (case AddParameter_findConsequencesOfAddParameter findMatches project requirement of
           Inl e \<Rightarrow> Inl e
         | Inr consequences \<Rightarrow> Inr (map (AddParameter_withWhy requirement) consequences))
      else Inr [])"

text \<open>
  \<^verbatim>\<open>findConsequences(project, unchecked, checked = [])\<close>. The recursion has no bound of
  its own, so the function is partial: \<open>None\<close> is a run that never returns,
  \<open>Some (Inl e)\<close> a rejected promise, \<open>Some (Inr checked)\<close> the resolved list.
  \<^verbatim>\<open>unchecked.pop()\<close> takes the last element.
\<close>

partial_function (option) AddParameter_findConsequences ::
  "('p \<Rightarrow> string \<Rightarrow> string \<Rightarrow> MatchResult list) \<Rightarrow> 'p \<Rightarrow> AddParameter_Requirement list
     \<Rightarrow> AddParameter_Requirement list \<Rightarrow> (error + AddParameter_Requirement list) option" where
  "AddParameter_findConsequences findMatches project unchecked checked =
     (if length unchecked = 0 then Some (Inr checked)
      else
        let thisOne = last unchecked; remaining = butlast unchecked
        in if list_ex (\<lambda>other. AddParameter_sameRequirement other thisOne) checked
           then AddParameter_findConsequences findMatches project remaining checked
           else case AddParameter_findConsequencesOfOne findMatches project thisOne of
                  Inl e \<Rightarrow> Some (Inl e)
                | Inr theseReqs \<Rightarrow>
                    AddParameter_findConsequences findMatches project
                      (remaining @ theseReqs) (checked @ [thisOne]))"

section \<open>Concrete projects\<close>

text \<open>
  The instances below fix a project by the answers of the query engine: a table from
  glob and path expression to the matches returned, every other query returning none.
  Subtrees that no function of this development inspects (the bodies of blocks) are left
  out of the trees.
\<close>

type_synonym AnswerTable = "((string \<times> string) \<times> MatchResult list) list"

definition tableFindMatches :: "AnswerTable \<Rightarrow> string \<Rightarrow> string \<Rightarrow> MatchResult list" where
  "tableFindMatches project glob pathExpression =
     (case map_of project (glob, pathExpression) of None \<Rightarrow> [] | Some ms \<Rightarrow> ms)"

definition handlerContext :: ImportIdentifier where
  "handlerContext = LibraryImport ''HandlerContext'' ''@atomist/automation-client''"

definition localHandlerContext :: ImportIdentifier where
  "localHandlerContext =
     LocalImport ''HandlerContext'' ''../HandlerContext.ts'' (Some ''@atomist/automation-client'')"

definition emptyObject :: PopulateInTests where
  "emptyObject = \<lparr> dummyValue = ''{}'', additionalImport = None \<rparr>"

text \<open>
  The two roots of the repository's migration tests: \<^verbatim>\<open>thinger\<close> in
  \<^verbatim>\<open>src/thinger.ts\<close>, once not exported and once exported, with a local parameter
  type that carries an external path. Nothing calls \<^verbatim>\<open>thinger\<close>.
\<close>

definition privateThinger :: Requirement where
  "privateThinger =
     AddParameterRequirement
       \<lparr> enclosingScope = None, name = ''thinger'', filePath = ''src/thinger.ts'',
         access = PrivateFunctionAccess \<rparr>
       localHandlerContext ''context'' emptyObject NoReason"

definition exportedThinger :: Requirement where
  "exportedThinger =
     AddParameterRequirement
       \<lparr> enclosingScope = None, name = ''thinger'', filePath = ''src/thinger.ts'',
         access = PublicFunctionAccess \<rparr>
       localHandlerContext ''context'' emptyObject NoReason"

text \<open>
  \<^verbatim>\<open>class Classy { public thinger() { } }\<close>: the method declaration has the modifier
  \<^verbatim>\<open>public\<close> and none of \<^verbatim>\<open>export\<close>, \<^verbatim>\<open>private\<close>, \<^verbatim>\<open>protected\<close>.
\<close>

definition publicMethodDeclaration :: TreeNode where
  "publicMethodDeclaration =
     TreeNode ''MethodDeclaration'' ''public thinger() { }''
       [TreeNode ''SyntaxList'' ''public'' [TreeNode ''PublicKeyword'' ''public'' []],
        TreeNode ''Identifier'' ''thinger'' [],
        TreeNode ''OpenParenToken'' ''('' [],
        TreeNode ''SyntaxList'' '''' [],
        TreeNode ''CloseParenToken'' '')'' [],
        TreeNode ''Block'' ''{ }'' []]"

text \<open>
  \<^verbatim>\<open>src/f.ts\<close>:
  \<^verbatim>\<open>export function iShouldChange() { return priv(1); } function priv(n: number) { }\<close>
\<close>

definition iShouldChangeDeclaration :: TreeNode where
  "iShouldChangeDeclaration =
     TreeNode ''FunctionDeclaration'' ''export function iShouldChange() { return priv(1); }''
       [TreeNode ''SyntaxList'' ''export'' [TreeNode ''ExportKeyword'' ''export'' []],
        TreeNode ''FunctionKeyword'' ''function'' [],
        TreeNode ''Identifier'' ''iShouldChange'' [],
        TreeNode ''OpenParenToken'' ''('' [],
        TreeNode ''SyntaxList'' '''' [],
        TreeNode ''CloseParenToken'' '')'' [],
        TreeNode ''Block'' ''{ return priv(1); }'' []]"

definition privDeclaration :: TreeNode where
  "privDeclaration =
     TreeNode ''FunctionDeclaration'' ''function priv(n: number) { }''
       [TreeNode ''FunctionKeyword'' ''function'' [],
        TreeNode ''Identifier'' ''priv'' [],
        TreeNode ''OpenParenToken'' ''('' [],
        TreeNode ''SyntaxList'' ''n: number''
          [TreeNode ''Parameter'' ''n: number''
             [TreeNode ''Identifier'' ''n'' [], TreeNode ''ColonToken'' '':'' [],
              TreeNode ''NumberKeyword'' ''number'' []]],
        TreeNode ''CloseParenToken'' '')'' [],
        TreeNode ''Block'' ''{ }'' []]"

definition fSyntaxList :: TreeNode where
  "fSyntaxList =
     TreeNode ''SyntaxList''
       ''export function iShouldChange() { return priv(1); } function priv(n: number) { }''
       [iShouldChangeDeclaration, privDeclaration]"

definition fSourceFile :: TreeNode where
  "fSourceFile =
     TreeNode ''SourceFile''
       ''export function iShouldChange() { return priv(1); } function priv(n: number) { }''
       [fSyntaxList, TreeNode ''EndOfFileToken'' '''' []]"

definition iShouldChangeMatch :: MatchResult where
  "iShouldChangeMatch =
     \<lparr> node = iShouldChangeDeclaration,
       parents = [fSyntaxList, fSourceFile],
       sourceLocationPath = ''src/f.ts'' \<rparr>"

definition priv :: FunctionCallIdentifier where
  "priv = \<lparr> enclosingScope = None, name = ''priv'', filePath = ''src/f.ts'',
            access = PrivateFunctionAccess \<rparr>"

definition addContextToPriv :: Requirement where
  "addContextToPriv =
     AddParameterRequirement priv handlerContext ''context'' emptyObject
       (Reason ''I want to use the context in here'')"

definition fProject :: AnswerTable where
  "fProject =
     [((''src/f.ts'',
        ''//FunctionDeclaration['' @ functionCallPathExpression priv @ '']'' @ ''|'' @
        ''//MethodDeclaration['' @ functionCallPathExpression priv @ '']''),
       [iShouldChangeMatch]),
      ((''src/f.ts'', ''/SourceFile''),
       [\<lparr> node = fSourceFile, parents = [], sourceLocationPath = ''src/f.ts'' \<rparr>]),
      ((''src/f.ts'', functionDeclarationPathExpression priv),
       [\<lparr> node = privDeclaration, parents = [fSyntaxList, fSourceFile],
          sourceLocationPath = ''src/f.ts'' \<rparr>])]"

text \<open>
  \<^verbatim>\<open>src/Classy.ts\<close>:
  \<^verbatim>\<open>class Classy { public otherThinger(params: P, ctx: HandlerContext) { return this.thinger(); }
  private thinger() { } }\<close>
\<close>

definition otherThingerDeclaration :: TreeNode where
  "otherThingerDeclaration =
     TreeNode ''MethodDeclaration''
       ''public otherThinger(params: P, ctx: HandlerContext) { return this.thinger(); }''
       [TreeNode ''SyntaxList'' ''public'' [TreeNode ''PublicKeyword'' ''public'' []],
        TreeNode ''Identifier'' ''otherThinger'' [],
        TreeNode ''OpenParenToken'' ''('' [],
        TreeNode ''SyntaxList'' ''params: P, ctx: HandlerContext''
          [TreeNode ''Parameter'' ''params: P''
             [TreeNode ''Identifier'' ''params'' [], TreeNode ''ColonToken'' '':'' [],
              TreeNode ''TypeReference'' ''P'' [TreeNode ''Identifier'' ''P'' []]],
           TreeNode ''CommaToken'' '','' [],
           TreeNode ''Parameter'' ''ctx: HandlerContext''
             [TreeNode ''Identifier'' ''ctx'' [], TreeNode ''ColonToken'' '':'' [],
              TreeNode ''TypeReference'' ''HandlerContext''
                [TreeNode ''Identifier'' ''HandlerContext'' []]]],
        TreeNode ''CloseParenToken'' '')'' [],
        TreeNode ''Block'' ''{ return this.thinger(); }'' []]"

definition classyDeclaration :: TreeNode where
  "classyDeclaration =
     TreeNode ''ClassDeclaration'' ''class Classy { }''
       [TreeNode ''ClassKeyword'' ''class'' [],
        TreeNode ''Identifier'' ''Classy'' [],
        TreeNode ''OpenBraceToken'' ''{'' [],
        TreeNode ''SyntaxList'' '''' [otherThingerDeclaration],
        TreeNode ''CloseBraceToken'' ''}'' []]"

definition otherThingerMatch :: MatchResult where
  "otherThingerMatch =
     \<lparr> node = otherThingerDeclaration,
       parents = [TreeNode ''SyntaxList'' '''' [otherThingerDeclaration], classyDeclaration,
                  TreeNode ''SyntaxList'' '''' [classyDeclaration],
                  TreeNode ''SourceFile'' '''' [TreeNode ''SyntaxList'' '''' [classyDeclaration]]],
       sourceLocationPath = ''src/Classy.ts'' \<rparr>"

definition addContextToThinger :: Requirement where
  "addContextToThinger =
     AddParameterRequirement
       \<lparr> enclosingScope = Some (ClassAroundMethod ''Classy'' True None), name = ''thinger'',
         filePath = ''src/Classy.ts'', access = PrivateMethodAccess \<rparr>
       handlerContext ''context'' emptyObject NoReason"

text \<open>The declaration of \<^verbatim>\<open>iShouldChange\<close> again, in a file \<^verbatim>\<open>testimonials/render.ts\<close>.\<close>

definition testimonialsMatch :: MatchResult where
  "testimonialsMatch =
     \<lparr> node = iShouldChangeDeclaration, parents = [],
       sourceLocationPath = ''testimonials/render.ts'' \<rparr>"

definition iShouldChange :: FunctionCallIdentifier where
  "iShouldChange = \<lparr> enclosingScope = None, name = ''iShouldChange'', filePath = ''src/f.ts'',
                     access = PublicFunctionAccess \<rparr>"

definition otherThinger :: FunctionCallIdentifier where
  "otherThinger =
     \<lparr> enclosingScope = Some (ClassAroundMethod ''Classy'' True None), name = ''otherThinger'',
       filePath = ''src/Classy.ts'', access = PrivateFunctionAccess \<rparr>"

definition addContextToTestimonialsPriv :: Requirement where
  "addContextToTestimonialsPriv =
     AddParameterRequirement
       \<lparr> enclosingScope = None, name = ''priv'', filePath = ''testimonials/render.ts'',
         access = PrivateFunctionAccess \<rparr>
       handlerContext ''context'' emptyObject NoReason"

definition doubleQuoted :: "string \<Rightarrow> string" where
  "doubleQuoted s = CHR 0x22 # s @ [CHR 0x22]"

definition fSourceFileMatch :: MatchResult where
  "fSourceFileMatch = \<lparr> node = fSourceFile, parents = [], sourceLocationPath = ''src/f.ts'' \<rparr>"

text \<open>A requirement on a function \<^verbatim>\<open>missing\<close> that \<^verbatim>\<open>src/f.ts\<close> does not declare.\<close>

definition addContextToMissing :: Requirement where
  "addContextToMissing =
     AddParameterRequirement
       \<lparr> enclosingScope = None, name = ''missing'', filePath = ''src/f.ts'',
         access = PrivateFunctionAccess \<rparr>
       handlerContext ''context'' emptyObject NoReason"

text \<open>
  Answers of an engine whose trees carry no parenthesis tokens: the declaration of
  \<^verbatim>\<open>priv\<close> and the call of \<^verbatim>\<open>priv\<close> inside \<^verbatim>\<open>iShouldChange\<close>.
\<close>

definition parenlessDeclaration :: MatchResult where
  "parenlessDeclaration =
     \<lparr> node = TreeNode ''FunctionDeclaration'' ''function priv(n: number) { }''
                [TreeNode ''FunctionKeyword'' ''function'' [],
                 TreeNode ''Identifier'' ''priv'' [],
                 TreeNode ''Block'' ''{ }'' []],
       parents = [fSyntaxList, fSourceFile], sourceLocationPath = ''src/f.ts'' \<rparr>"

definition parenlessCall :: MatchResult where
  "parenlessCall =
     \<lparr> node = TreeNode ''CallExpression'' ''priv(1)''
                [TreeNode ''Identifier'' ''priv'' [],
                 TreeNode ''SyntaxList'' ''1'' [TreeNode ''FirstLiteralToken'' ''1'' []]],
       parents = [], sourceLocationPath = ''src/f.ts'' \<rparr>"

definition parenlessProject :: AnswerTable where
  "parenlessProject =
     [((''src/f.ts'', ''/SourceFile''), [fSourceFileMatch]),
      ((''src/f.ts'', functionDeclarationPathExpression priv), [parenlessDeclaration]),
      ((''src/f.ts'', functionDeclarationPathExpression iShouldChange @ functionCallPathExpression priv),
       [parenlessCall])]"

definition passContextToPriv :: Requirement where
  "passContextToPriv = PassArgumentRequirement iShouldChange priv ''context'' (Because addContextToPriv)"

section \<open>Parameters of an enclosing declaration\<close>









































section \<open>Keys of requirements\<close>

text \<open>
  What \<open>AddParameter_sameRequirement\<close> compares: the kind, the function that gets the
  parameter and, for a PassArgument, the enclosing function. The matches of a set of
  match results stand for the functions that can be named as enclosing functions.
\<close>

definition AddParameter_key ::
  "AddParameter_Requirement \<Rightarrow> string \<times> FunctionIdentifier \<times> FunctionIdentifier option" where
  "AddParameter_key r =
     (AddParameter_kind r, AddParameter_functionWithAdditionalParameter r,
      if AddParameter_isPassArgumentRequirement r then Some (AddParameter_enclosingFunction r) else None)"

definition identifiersOf :: "MatchResult set \<Rightarrow> FunctionIdentifier set" where
  "identifiersOf D =
     {\<lparr> functionName = n, functionFilePath = sourceLocationPath m \<rparr> | m n.
        m \<in> D \<and> identifierOf (node m) = Inr n}"

definition generatedKeys ::
  "FunctionIdentifier set \<Rightarrow> FunctionIdentifier set
     \<Rightarrow> (string \<times> FunctionIdentifier \<times> FunctionIdentifier option) set" where
  "generatedKeys T E =
     {''Add Parameter'', ''Pass Dummy In Tests'', ''Pass Argument''} \<times> T \<times> insert None (Some ` E)"

definition answersOf :: "AnswerTable \<Rightarrow> MatchResult set" where
  "answersOf project = (\<Union>entry \<in> set project. set (snd entry))"

text \<open>
  The project of \<^verbatim>\<open>src/f.ts\<close> as the worklist planner queries it: the calls of
  \<^verbatim>\<open>priv\<close> lie in \<^verbatim>\<open>iShouldChange\<close>, nothing calls \<^verbatim>\<open>iShouldChange\<close>.
\<close>

definition fWorklistProject :: AnswerTable where
  "fWorklistProject =
     [((''src/**/*.ts'',
        ''//FunctionDeclaration['' @ AddParameter_functionCallPathExpression ''priv'' @ '']''),
       [iShouldChangeMatch])]"

definition AddParameter_priv :: FunctionIdentifier where
  "AddParameter_priv = \<lparr> functionName = ''priv'', functionFilePath = ''src/f.ts'' \<rparr>"

definition AddParameter_iShouldChange :: FunctionIdentifier where
  "AddParameter_iShouldChange = \<lparr> functionName = ''iShouldChange'', functionFilePath = ''src/f.ts'' \<rparr>"

definition originalRequirement :: AddParameter_Requirement where
  "originalRequirement =
     AddParameter_AddParameterRequirement AddParameter_priv
       (LocalImport ''HandlerContext'' ''src/HandlerContext'' None) ''context''
       ''{} as HandlerContext'' (AddParameter_Reason ''I want to use the context in here'')"

definition addContextToIShouldChange :: AddParameter_Requirement where
  "addContextToIShouldChange =
     AddParameter_AddParameterRequirement AddParameter_iShouldChange
       (LocalImport ''HandlerContext'' ''src/HandlerContext'' None) ''context''
       ''{} as HandlerContext'' (AddParameter_Because originalRequirement)"

definition passContextInIShouldChange :: AddParameter_Requirement where
  "passContextInIShouldChange =
     AddParameter_PassArgumentRequirement AddParameter_iShouldChange AddParameter_priv ''context''
       (AddParameter_Because originalRequirement)"

definition dummyForPriv :: AddParameter_Requirement where
  "dummyForPriv =
     AddParameter_PassDummyInTestsRequirement AddParameter_priv ''{} as HandlerContext''
       (AddParameter_Because originalRequirement)"

definition dummyForIShouldChange :: AddParameter_Requirement where
  "dummyForIShouldChange =
     AddParameter_PassDummyInTestsRequirement AddParameter_iShouldChange ''{} as HandlerContext''
       (AddParameter_Because addContextToIShouldChange)"

section \<open>Algebra of consequences\<close>

text \<open>
  C10. \<open>combineConsequences\<close> concatenates the two lists componentwise; it is
  associative and \<open>emptyConsequences\<close> is a left and a right identity.
\<close>

theorem combineConsequences_monoid:
  "combineConsequences a (combineConsequences b c) = combineConsequences (combineConsequences a b) c
   \<and> combineConsequences emptyConsequences a = a
   \<and> combineConsequences a emptyConsequences = a
   \<and> concomitantChanges (combineConsequences a b) = concomitantChanges a @ concomitantChanges b
   \<and> prerequisiteChanges (combineConsequences a b) = prerequisiteChanges a @ prerequisiteChanges b"
  by (simp add: combineConsequences_def emptyConsequences_def)

section \<open>Access of a declaration\<close>

lemma determineAccess_cases:
  "determineAccess d =
     (if hasKeyword d ''ExportKeyword'' then PublicFunctionAccess
      else if hasKeyword d ''PrivateKeyword'' \<or> hasKeyword d ''ProtectedKeyword''
        then PrivateMethodAccess
      else PrivateFunctionAccess)"
  by (simp add: determineAccess_def)

lemma determineAccess_never_public_method: "determineAccess d \<noteq> PublicMethodAccess"
  by (simp add: determineAccess_def)

text \<open>
  C5. The claim gives \<open>PublicMethodAccess\<close> to a class method without
  \<^verbatim>\<open>export\<close>, \<^verbatim>\<open>private\<close> or \<^verbatim>\<open>protected\<close>. \<open>determineAccess\<close> has no
  such case: for the method \<^verbatim>\<open>public thinger() { }\<close> of a class it answers
  \<open>PrivateFunctionAccess\<close>, the answer for a top-level function without export.
\<close>

theorem determineAccess_public_method_is_private_function:
  "determineAccess publicMethodDeclaration = PrivateFunctionAccess"
  by (simp add: publicMethodDeclaration_def determineAccess_def hasKeyword_def childAxis_def
        childrenNamed_def)

section \<open>Consequences of a call site\<close>

lemma suitableParameterMatches_iff:
  "x \<in> set (suitableParameterMatches e t) \<longleftrightarrow>
     (\<exists>s \<in> set (childrenNamed e ''SyntaxList''). \<exists>p \<in> set (childrenNamed s ''Parameter'').
        (\<exists>r \<in> set (childrenNamed p ''TypeReference''). nodeValue r = t) \<and>
        x \<in> set (childrenNamed p ''Identifier''))"
  by (auto simp: suitableParameterMatches_def childAxis_def list_ex_iff)




section \<open>Consequences of the call sites of a target\<close>


















section \<open>Properties of the planner step\<close>

lemma findConsequencesOfAddParameter_of_matches:
  assumes "findMatches project (globFromAccess (functionWithAdditionalParameter r))
             ((''//FunctionDeclaration['' @ functionCallPathExpression (functionWithAdditionalParameter r) @ '']'')
              @ ''|'' @
              (''//MethodDeclaration['' @ functionCallPathExpression (functionWithAdditionalParameter r) @ '']''))
           = ms"
      and "reduceMatches r emptyConsequences ms = Inr src"
  shows "findConsequencesOfAddParameter isPublicFunctionAccess globFromAccess findMatches project r =
           Inr \<lparr> concomitantChanges =
                   concomitantChanges src @
                   (if isPublicFunctionAccess (access (functionWithAdditionalParameter r))
                    then [PassDummyInTestsRequirement (functionWithAdditionalParameter r)
                            (dummyValue (populateInTests r)) (additionalImport (populateInTests r)) NoReason]
                    else []) @
                   [AddMigrationRequirement r (Because r)],
                 prerequisiteChanges = prerequisiteChanges src \<rparr>"
  unfolding findConsequencesOfAddParameter_def Let_def assms
  by (simp add: combineConsequences_def concomitantChange_def emptyConsequences_def)

lemma iShouldChange_identifier:
  "functionCallIdentifierFromTreeNode iShouldChangeMatch = Inr iShouldChange"
  by (simp add: functionCallIdentifierFromTreeNode_def iShouldChangeMatch_def iShouldChange_def
        iShouldChangeDeclaration_def identifierOf_def childrenNamed_def fSyntaxList_def
        fSourceFile_def determineAccess_def hasKeyword_def childAxis_def)

lemma iShouldChange_consequences:
  "consequencesOfFunctionCall addContextToPriv iShouldChangeMatch =
     Inr \<lparr> concomitantChanges =
             [PassArgumentRequirement iShouldChange priv ''context'' (Because addContextToPriv)],
           prerequisiteChanges =
             [AddParameterRequirement iShouldChange handlerContext ''context'' emptyObject
                (Because (PassArgumentRequirement iShouldChange priv ''context''
                   (Because addContextToPriv)))] \<rparr>"
  using iShouldChange_identifier
  by (simp add: consequencesOfFunctionCall_def addContextToPriv_def handlerContext_def
        suitableParameterMatches_def iShouldChangeMatch_def iShouldChangeDeclaration_def
        childAxis_def childrenNamed_def identifierOf_def Let_def)

lemma fProject_planned:
  "findConsequencesOfAddParameter (\<lambda>a. a = PublicFunctionAccess) filePath tableFindMatches fProject
         addContextToPriv
       = Inr \<lparr> concomitantChanges =
                 [PassArgumentRequirement iShouldChange priv ''context'' (Because addContextToPriv),
                  AddMigrationRequirement addContextToPriv (Because addContextToPriv)],
               prerequisiteChanges =
                 [AddParameterRequirement iShouldChange handlerContext ''context'' emptyObject
                    (Because (PassArgumentRequirement iShouldChange priv ''context''
                       (Because addContextToPriv)))] \<rparr>"
proof -
  have t: "functionWithAdditionalParameter addContextToPriv = priv"
    by (simp add: addContextToPriv_def)
  have lookup: "tableFindMatches fProject (filePath (functionWithAdditionalParameter addContextToPriv))
          ((''//FunctionDeclaration['' @ functionCallPathExpression (functionWithAdditionalParameter addContextToPriv) @ '']'')
           @ ''|'' @
           (''//MethodDeclaration['' @ functionCallPathExpression (functionWithAdditionalParameter addContextToPriv) @ '']''))
          = [iShouldChangeMatch]"
    unfolding t by (simp add: tableFindMatches_def fProject_def priv_def)
  have red: "reduceMatches addContextToPriv emptyConsequences [iShouldChangeMatch] =
     Inr \<lparr> concomitantChanges =
             [PassArgumentRequirement iShouldChange priv ''context'' (Because addContextToPriv)],
           prerequisiteChanges =
             [AddParameterRequirement iShouldChange handlerContext ''context'' emptyObject
                (Because (PassArgumentRequirement iShouldChange priv ''context''
                   (Because addContextToPriv)))] \<rparr>"
    by (simp add: iShouldChange_consequences combineConsequences_def emptyConsequences_def)
  have "findConsequencesOfAddParameter (\<lambda>a. a = PublicFunctionAccess) filePath tableFindMatches fProject
          addContextToPriv
        = Inr \<lparr> concomitantChanges =
                  concomitantChanges
                    \<lparr> concomitantChanges =
                        [PassArgumentRequirement iShouldChange priv ''context'' (Because addContextToPriv)],
                      prerequisiteChanges =
                        [AddParameterRequirement iShouldChange handlerContext ''context'' emptyObject
                           (Because (PassArgumentRequirement iShouldChange priv ''context''
                              (Because addContextToPriv)))] \<rparr> @
                  (if access (functionWithAdditionalParameter addContextToPriv) = PublicFunctionAccess
                   then [PassDummyInTestsRequirement (functionWithAdditionalParameter addContextToPriv)
                           (dummyValue (populateInTests addContextToPriv))
                           (additionalImport (populateInTests addContextToPriv)) NoReason]
                   else []) @
                  [AddMigrationRequirement addContextToPriv (Because addContextToPriv)],
                prerequisiteChanges =
                  prerequisiteChanges
                    \<lparr> concomitantChanges =
                        [PassArgumentRequirement iShouldChange priv ''context'' (Because addContextToPriv)],
                      prerequisiteChanges =
                        [AddParameterRequirement iShouldChange handlerContext ''context'' emptyObject
                           (Because (PassArgumentRequirement iShouldChange priv ''context''
                              (Because addContextToPriv)))] \<rparr> \<rparr>"
    by (rule findConsequencesOfAddParameter_of_matches[where ms = "[iShouldChangeMatch]"],
        rule lookup, rule red)
  then show ?thesis
    by (simp add: t priv_def)
qed

section \<open>Call sites in test files\<close>

lemma consequencesOfFunctionCall_paths:
  assumes "consequencesOfFunctionCall r e = Inr c"
      and "q \<in> set (concomitantChanges c) \<union> set (prerequisiteChanges c)"
      and "isPassArgumentRequirement q"
  shows "\<not> prefix ''test'' (filePath (enclosingFunction q))"
  using assms
  by (auto simp: consequencesOfFunctionCall_def concomitantChange_def emptyConsequences_def Let_def
        functionCallIdentifierFromTreeNode_def split: sum.splits list.splits if_splits)

lemma reduceMatches_paths:
  assumes "reduceMatches r cc ms = Inr c"
      and "\<forall>q \<in> set (concomitantChanges cc) \<union> set (prerequisiteChanges cc).
             isPassArgumentRequirement q \<longrightarrow> \<not> prefix ''test'' (filePath (enclosingFunction q))"
  shows "\<forall>q \<in> set (concomitantChanges c) \<union> set (prerequisiteChanges c).
             isPassArgumentRequirement q \<longrightarrow> \<not> prefix ''test'' (filePath (enclosingFunction q))"
  using assms
proof (induction ms arbitrary: cc)
  case Nil
  then show ?case by simp
next
  case (Cons m ms)
  from Cons.prems(1) obtain c1 where
    c1: "consequencesOfFunctionCall r m = Inr c1" and
    rest: "reduceMatches r (combineConsequences cc c1) ms = Inr c"
    by (auto split: sum.splits)
  have "\<forall>q \<in> set (concomitantChanges (combineConsequences cc c1))
                \<union> set (prerequisiteChanges (combineConsequences cc c1)).
             isPassArgumentRequirement q \<longrightarrow> \<not> prefix ''test'' (filePath (enclosingFunction q))"
    using Cons.prems(2) consequencesOfFunctionCall_paths[OF c1]
    by (auto simp: combineConsequences_def)
  from Cons.IH[OF rest this] show ?case .
qed

lemma prefix_test_slash: "prefix ''test/'' s \<Longrightarrow> prefix ''test'' s"
proof -
  assume "prefix ''test/'' s"
  moreover have "prefix ''test'' ''test/''" by simp
  ultimately show ?thesis by (rule prefix_order.trans[rotated])
qed

text \<open>
  C8, as the code has it. A call site contributes no consequences exactly when the path
  of its file starts with \<^verbatim>\<open>test\<close> (the source tests
  \<^verbatim>\<open>filePath.startsWith("test")\<close>, without a slash); and no PassArgument among the
  consequences of an AddParameter requirement has an enclosing function whose file path
  starts with \<^verbatim>\<open>test\<close>, so none lies under \<^verbatim>\<open>test/\<close>.
\<close>

theorem consequencesOfFunctionCall_empty_iff_test_prefix:
  "((consequencesOfFunctionCall r e = Inr emptyConsequences) = prefix ''test'' (sourceLocationPath e))
   \<and> (\<forall>c q. findConsequencesOfAddParameter isPublicFunctionAccess globFromAccess findMatches project r = Inr c
            \<and> q \<in> set (concomitantChanges c) \<union> set (prerequisiteChanges c)
            \<and> isPassArgumentRequirement q
          \<longrightarrow> \<not> prefix ''test'' (filePath (enclosingFunction q))
              \<and> \<not> prefix ''test/'' (filePath (enclosingFunction q)))"
proof (intro conjI allI impI)
  show "(consequencesOfFunctionCall r e = Inr emptyConsequences) = prefix ''test'' (sourceLocationPath e)"
    by (auto simp: consequencesOfFunctionCall_def concomitantChange_def emptyConsequences_def Let_def
          split: sum.splits list.splits)
next
  fix c q
  assume h: "findConsequencesOfAddParameter isPublicFunctionAccess globFromAccess findMatches project r = Inr c
            \<and> q \<in> set (concomitantChanges c) \<union> set (prerequisiteChanges c)
            \<and> isPassArgumentRequirement q"
  let ?ms = "findMatches project (globFromAccess (functionWithAdditionalParameter r))
               ((''//FunctionDeclaration['' @ functionCallPathExpression (functionWithAdditionalParameter r) @ '']'')
                @ ''|'' @
                (''//MethodDeclaration['' @ functionCallPathExpression (functionWithAdditionalParameter r) @ '']''))"
  from h obtain src where
    src: "reduceMatches r emptyConsequences ?ms = Inr src" and
    q: "q \<in> set (concomitantChanges src) \<union> set (prerequisiteChanges src)"
    by (auto simp: findConsequencesOfAddParameter_def Let_def combineConsequences_def
          concomitantChange_def emptyConsequences_def split: sum.splits if_splits)
  have "\<forall>q \<in> set (concomitantChanges src) \<union> set (prerequisiteChanges src).
             isPassArgumentRequirement q \<longrightarrow> \<not> prefix ''test'' (filePath (enclosingFunction q))"
    by (rule reduceMatches_paths[OF src]) (simp add: emptyConsequences_def)
  with q h show a: "\<not> prefix ''test'' (filePath (enclosingFunction q))" by blast
  then show "\<not> prefix ''test/'' (filePath (enclosingFunction q))"
    using prefix_test_slash by blast
qed

theorem consequencesOfFunctionCall_empty_iff_test_prefix_witness:
  "(consequencesOfFunctionCall addContextToPriv iShouldChangeMatch = Inr emptyConsequences)
     = prefix ''test'' (sourceLocationPath iShouldChangeMatch)
   \<and> (findConsequencesOfAddParameter (\<lambda>a. a = PublicFunctionAccess) filePath tableFindMatches fProject
         addContextToPriv
       = Inr \<lparr> concomitantChanges =
                 [PassArgumentRequirement iShouldChange priv ''context'' (Because addContextToPriv),
                  AddMigrationRequirement addContextToPriv (Because addContextToPriv)],
               prerequisiteChanges =
                 [AddParameterRequirement iShouldChange handlerContext ''context'' emptyObject
                    (Because (PassArgumentRequirement iShouldChange priv ''context''
                       (Because addContextToPriv)))] \<rparr>
      \<and> isPassArgumentRequirement
           (PassArgumentRequirement iShouldChange priv ''context'' (Because addContextToPriv)))
   \<and> \<not> prefix ''test''
         (filePath (enclosingFunction
            (PassArgumentRequirement iShouldChange priv ''context'' (Because addContextToPriv))))
   \<and> \<not> prefix ''test/''
         (filePath (enclosingFunction
            (PassArgumentRequirement iShouldChange priv ''context'' (Because addContextToPriv))))"
proof -
  show ?thesis
    using consequencesOfFunctionCall_empty_iff_test_prefix[of addContextToPriv iShouldChangeMatch
            "\<lambda>a. a = PublicFunctionAccess" filePath tableFindMatches fProject]
          fProject_planned iShouldChange_consequences
    by (simp add: iShouldChange_def iShouldChangeMatch_def emptyConsequences_def)
qed

text \<open>
  C8, as the claim states it, asks for the prefix \<^verbatim>\<open>test/\<close>. A call site in
  \<^verbatim>\<open>testimonials/render.ts\<close> contributes nothing although its path does not start with
  \<^verbatim>\<open>test/\<close>.
\<close>

theorem consequencesOfFunctionCall_test_slash_counterexample:
  "consequencesOfFunctionCall addContextToTestimonialsPriv testimonialsMatch = Inr emptyConsequences
   \<and> \<not> prefix ''test/'' (sourceLocationPath testimonialsMatch)"
  by (simp add: consequencesOfFunctionCall_def testimonialsMatch_def)


section \<open>Consequences for the root itself\<close>

lemma reduceMatches_no_global:
  assumes "reduceMatches r cc ms = Inr c"
      and "\<forall>q \<in> set (concomitantChanges cc). isPassArgumentRequirement q"
  shows "\<forall>q \<in> set (concomitantChanges c). isPassArgumentRequirement q"
  using assms
proof (induction ms arbitrary: cc)
  case Nil
  then show ?case by simp
next
  case (Cons m ms)
  from Cons.prems(1) obtain c1 where
    c1: "consequencesOfFunctionCall r m = Inr c1" and
    rest: "reduceMatches r (combineConsequences cc c1) ms = Inr c"
    by (auto split: sum.splits)
  from c1 have "\<forall>q \<in> set (concomitantChanges c1). isPassArgumentRequirement q"
    by (auto simp: consequencesOfFunctionCall_def concomitantChange_def emptyConsequences_def Let_def
          split: sum.splits list.splits if_splits)
  with Cons.prems(2)
  have "\<forall>q \<in> set (concomitantChanges (combineConsequences cc c1)). isPassArgumentRequirement q"
    by (auto simp: combineConsequences_def)
  from Cons.IH[OF rest this] show ?case .
qed

text \<open>
  What the planner step emits for the root itself, whatever the call sites: the dummy
  for tests under the guard \<open>isPublicFunctionAccess\<close>, the migration always.
\<close>

lemma findConsequencesOfAddParameter_global:
  assumes "findConsequencesOfAddParameter isPublicFunctionAccess globFromAccess findMatches project r = Inr c"
  shows "AddMigrationRequirement r (Because r) \<in> set (concomitantChanges c)"
    and "(\<exists>q \<in> set (concomitantChanges c). isPassDummyInTests q)
           = isPublicFunctionAccess (access (functionWithAdditionalParameter r))"
    and "length (filter isAddMigrationRequirement (concomitantChanges c)) = 1"
proof -
  let ?ms = "findMatches project (globFromAccess (functionWithAdditionalParameter r))
               ((''//FunctionDeclaration['' @ functionCallPathExpression (functionWithAdditionalParameter r) @ '']'')
                @ ''|'' @
                (''//MethodDeclaration['' @ functionCallPathExpression (functionWithAdditionalParameter r) @ '']''))"
  from assms obtain src where src: "reduceMatches r emptyConsequences ?ms = Inr src"
    by (auto simp: findConsequencesOfAddParameter_def Let_def split: sum.splits)
  have c: "c = \<lparr> concomitantChanges =
                   concomitantChanges src @
                   (if isPublicFunctionAccess (access (functionWithAdditionalParameter r))
                    then [PassDummyInTestsRequirement (functionWithAdditionalParameter r)
                            (dummyValue (populateInTests r)) (additionalImport (populateInTests r)) NoReason]
                    else []) @
                   [AddMigrationRequirement r (Because r)],
                 prerequisiteChanges = prerequisiteChanges src \<rparr>"
    using assms findConsequencesOfAddParameter_of_matches[where findMatches = findMatches and project = project
            and globFromAccess = globFromAccess and r = r
            and isPublicFunctionAccess = isPublicFunctionAccess, OF refl src]
    by simp
  have pa: "\<forall>q \<in> set (concomitantChanges src). isPassArgumentRequirement q"
    by (rule reduceMatches_no_global[OF src]) (simp add: emptyConsequences_def)
  show "AddMigrationRequirement r (Because r) \<in> set (concomitantChanges c)"
    by (simp add: c)
  show "(\<exists>q \<in> set (concomitantChanges c). isPassDummyInTests q)
           = isPublicFunctionAccess (access (functionWithAdditionalParameter r))"
    using pa by (auto simp: c)
  have "filter isAddMigrationRequirement (concomitantChanges src) = []"
    using pa by (auto simp: filter_empty_conv)
  then show "length (filter isAddMigrationRequirement (concomitantChanges c)) = 1"
    by (simp add: c)
qed

text \<open>
  C1. The claim excludes an AddMigration for a root with private access. The planner
  step builds \<^verbatim>\<open>externalConsequences\<close> from the requirement alone, without a test of the
  access: for the function \<^verbatim>\<open>thinger\<close> that is not exported and that nothing calls, its
  concomitant changes are one AddMigration. The guard of the dummy for tests is read
  here as the specification words it (public function or public method).
\<close>

theorem findConsequencesOfAddParameter_private_root_emits_migration:
  "findConsequencesOfAddParameter (\<lambda>a. a = PublicFunctionAccess \<or> a = PublicMethodAccess)
     filePath tableFindMatches [] privateThinger
   = Inr \<lparr> concomitantChanges = [AddMigrationRequirement privateThinger (Because privateThinger)],
           prerequisiteChanges = [] \<rparr>"
  by (simp add: findConsequencesOfAddParameter_def tableFindMatches_def privateThinger_def
        combineConsequences_def concomitantChange_def emptyConsequences_def Let_def)

text \<open>
  C3. For the exported \<^verbatim>\<open>thinger\<close> with a local parameter type that carries the
  external path \<^verbatim>\<open>@atomist/automation-client\<close>, the step emits one AddMigration, and
  its downstream requirement is the root as it stands: the parameter type is still the
  local import, not a library import located at the external path.
\<close>

theorem findConsequencesOfAddParameter_migration_keeps_local_import:
  "findConsequencesOfAddParameter (\<lambda>a. a = PublicFunctionAccess \<or> a = PublicMethodAccess)
     filePath tableFindMatches [] exportedThinger
   = Inr \<lparr> concomitantChanges =
             [PassDummyInTestsRequirement (functionWithAdditionalParameter exportedThinger) ''{}'' None NoReason,
              AddMigrationRequirement exportedThinger (Because exportedThinger)],
           prerequisiteChanges = [] \<rparr>
   \<and> parameterType (downstreamRequirement (AddMigrationRequirement exportedThinger (Because exportedThinger)))
       = LocalImport ''HandlerContext'' ''../HandlerContext.ts'' (Some ''@atomist/automation-client'')
   \<and> parameterType (downstreamRequirement (AddMigrationRequirement exportedThinger (Because exportedThinger)))
       \<noteq> LibraryImport ''HandlerContext'' ''@atomist/automation-client''"
  by (simp add: findConsequencesOfAddParameter_def tableFindMatches_def exportedThinger_def
        combineConsequences_def concomitantChange_def emptyConsequences_def emptyObject_def Let_def
        localHandlerContext_def)

section \<open>Errors and edits of the executor\<close>

lemma requireExactlyOne_iff:
  "requireExactlyOne m msg = (if length m = 1 then Inr (hd m) else Inl (Error msg))"
  by (cases m; cases "tl m") (auto simp: requireExactlyOne_def split: list.splits)

lemma passArgumentWrites_throws:
  "\<exists>m \<in> set ms. length (childAxis ''OpenParenToken'' [node m]) \<noteq> 1 \<Longrightarrow>
     passArgumentWrites r ms = Inl (Error ''wtf where is open paren'')"
proof (induction ms)
  case Nil
  then show ?case by simp
next
  case (Cons m ms)
  show ?case
  proof (cases "length (childAxis ''OpenParenToken'' [node m]) = 1")
    case False
    then show ?thesis by (simp add: requireExactlyOne_iff)
  next
    case True
    with Cons.prems have "\<exists>m \<in> set ms. length (childAxis ''OpenParenToken'' [node m]) \<noteq> 1"
      by auto
    from Cons.IH[OF this] True show ?thesis by (simp add: requireExactlyOne_iff)
  qed
qed

text \<open>
  C9. When a match handed to \<open>applyPassArgument\<close>, or the single declaration found by
  \<open>addParameter\<close> (after \<open>addImport\<close> has returned), does not have exactly one
  \<open>OpenParenToken\<close> child, the result is the thrown
  \<^verbatim>\<open>Error("wtf where is open paren")\<close>: there is no report, so the requirement is not
  recorded as unimplemented.
\<close>

theorem missing_open_paren_throws:
  "((\<exists>m \<in> set (findMatches project (filePath (enclosingFunction r))
                   (functionDeclarationPathExpression (enclosingFunction r)
                    @ functionCallPathExpression (functionWithAdditionalParameter r))).
        length (childAxis ''OpenParenToken'' [node m]) \<noteq> 1)
      \<longrightarrow> passArgument findMatches project r = Inl (Error ''wtf where is open paren''))
   \<and> (addImport findMatches project (filePath (functionWithAdditionalParameter r)) (parameterType r)
          = Inr (importAdded, ws)
        \<and> findMatches project (filePath (functionWithAdditionalParameter r))
            (functionDeclarationPathExpression (functionWithAdditionalParameter r)) = [d]
        \<and> length (childAxis ''OpenParenToken'' [node d]) \<noteq> 1
      \<longrightarrow> addParameter findMatches project r = Inl (Error ''wtf where is open paren''))"
proof (intro conjI impI)
  let ?ms = "findMatches project (filePath (enclosingFunction r))
                   (functionDeclarationPathExpression (enclosingFunction r)
                    @ functionCallPathExpression (functionWithAdditionalParameter r))"
  assume bad: "\<exists>m \<in> set ?ms. length (childAxis ''OpenParenToken'' [node m]) \<noteq> 1"
  then have "?ms \<noteq> []" by auto
  with passArgumentWrites_throws[OF bad, of r]
  show "passArgument findMatches project r = Inl (Error ''wtf where is open paren'')"
    by (simp add: passArgument_def applyPassArgument_def Let_def)
next
  assume "addImport findMatches project (filePath (functionWithAdditionalParameter r)) (parameterType r)
          = Inr (importAdded, ws)
        \<and> findMatches project (filePath (functionWithAdditionalParameter r))
            (functionDeclarationPathExpression (functionWithAdditionalParameter r)) = [d]
        \<and> length (childAxis ''OpenParenToken'' [node d]) \<noteq> 1"
  then show "addParameter findMatches project r = Inl (Error ''wtf where is open paren'')"
    by (simp add: addParameter_def Let_def requireExactlyOne_iff)
qed

lemma fSourceFile_no_imports:
  "existingImport fSourceFile nm = [] \<and> locationImportMatches fSourceFile loc = []"
  by (simp add: existingImport_def locationImportMatches_def descendantAxis_def fSourceFile_def
        fSyntaxList_def iShouldChangeDeclaration_def privDeclaration_def)

lemma addImport_fSourceFile:
  assumes "findMatches project ''src/f.ts'' ''/SourceFile'' = [fSourceFileMatch]"
  shows "addImport findMatches project ''src/f.ts'' handlerContext =
           Inr (True,
                [\<lparr> inMatch = fSourceFileMatch, target = fSourceFile,
                    newValue = ''import { HandlerContext } from ''
                               @ doubleQuoted ''@atomist/automation-client'' @ '';'' @ [CHR 0x0A]
                               @ nodeValue fSourceFile \<rparr>])"
  using assms fSourceFile_no_imports
  by (simp add: addImport_def handlerContext_def fSourceFileMatch_def doubleQuoted_def)

theorem missing_open_paren_throws_witness:
  "(\<exists>m \<in> set (tableFindMatches parenlessProject (filePath (enclosingFunction passContextToPriv))
                   (functionDeclarationPathExpression (enclosingFunction passContextToPriv)
                    @ functionCallPathExpression (functionWithAdditionalParameter passContextToPriv))).
        length (childAxis ''OpenParenToken'' [node m]) \<noteq> 1)
   \<and> passArgument tableFindMatches parenlessProject passContextToPriv
       = Inl (Error ''wtf where is open paren'')
   \<and> (\<exists>ws. addImport tableFindMatches parenlessProject
               (filePath (functionWithAdditionalParameter addContextToPriv)) (parameterType addContextToPriv)
             = Inr (True, ws))
   \<and> tableFindMatches parenlessProject (filePath (functionWithAdditionalParameter addContextToPriv))
        (functionDeclarationPathExpression (functionWithAdditionalParameter addContextToPriv))
       = [parenlessDeclaration]
   \<and> length (childAxis ''OpenParenToken'' [node parenlessDeclaration]) \<noteq> 1
   \<and> addParameter tableFindMatches parenlessProject addContextToPriv
       = Inl (Error ''wtf where is open paren'')"
proof -
  have t1: "enclosingFunction passContextToPriv = iShouldChange"
           "functionWithAdditionalParameter passContextToPriv = priv"
    by (simp_all add: passContextToPriv_def)
  have t2: "functionWithAdditionalParameter addContextToPriv = priv"
           "parameterType addContextToPriv = handlerContext"
    by (simp_all add: addContextToPriv_def)
  have p: "filePath priv = ''src/f.ts''" "filePath iShouldChange = ''src/f.ts''"
    by (simp_all add: priv_def iShouldChange_def)
  have calls: "tableFindMatches parenlessProject ''src/f.ts''
                 (functionDeclarationPathExpression iShouldChange @ functionCallPathExpression priv)
               = [parenlessCall]"
    by (simp add: tableFindMatches_def parenlessProject_def)
       (simp add: functionDeclarationPathExpression_def functionCallPathExpression_def
          scopePathExpressionComponents_def priv_def iShouldChange_def quoted_def)
  have decls: "tableFindMatches parenlessProject ''src/f.ts'' (functionDeclarationPathExpression priv)
               = [parenlessDeclaration]"
    by (simp add: tableFindMatches_def parenlessProject_def)
       (simp add: functionDeclarationPathExpression_def scopePathExpressionComponents_def priv_def
          quoted_def)
  have srcs: "tableFindMatches parenlessProject ''src/f.ts'' ''/SourceFile'' = [fSourceFileMatch]"
    by (simp add: tableFindMatches_def parenlessProject_def)
  have bad1: "length (childAxis ''OpenParenToken'' [node parenlessCall]) \<noteq> 1"
    by (simp add: parenlessCall_def childAxis_def childrenNamed_def)
  have bad2: "length (childAxis ''OpenParenToken'' [node parenlessDeclaration]) \<noteq> 1"
    by (simp add: parenlessDeclaration_def childAxis_def childrenNamed_def)
  note imp = addImport_fSourceFile[where findMatches = tableFindMatches and project = parenlessProject, OF srcs]
  from missing_open_paren_throws[of tableFindMatches parenlessProject passContextToPriv]
       missing_open_paren_throws[of tableFindMatches parenlessProject addContextToPriv True _ parenlessDeclaration]
  show ?thesis
    using calls decls bad1 bad2 imp
    by (simp add: t1 t2 p)
qed

lemma addParameter_cases:
  assumes "addImport findMatches project (filePath (functionWithAdditionalParameter r)) (parameterType r)
             = Inr (importAdded, ws)"
      and "findMatches project (filePath (functionWithAdditionalParameter r))
             (functionDeclarationPathExpression (functionWithAdditionalParameter r)) = ms"
  shows "ms = [] \<Longrightarrow>
           addParameter findMatches project r
             = Inr (reportUnimplemented r ''Function declaration not found'', ws)"
    and "1 < length ms \<Longrightarrow>
           addParameter findMatches project r
             = Inr (reportUnimplemented r
                      (''More than one function declaration matched. I'' @ [CHR 0x27] @ ''m confused.''), ws)"
    and "ms = [d] \<Longrightarrow> childAxis ''OpenParenToken'' [node d] = [openParen] \<Longrightarrow>
           addParameter findMatches project r
             = Inr (reportImplemented r,
                    ws @ [\<lparr> inMatch = d, target = openParen,
                             newValue = ''('' @ parameterName r @ '': ''
                                        @ importName (parameterType r) @ '', '' \<rparr>])"
  using assms by (auto simp: addParameter_def Let_def requireExactlyOne_def)

text \<open>
  C6. The claim says that no edit is made when the declaration is not found.
  \<open>addParameter\<close> adds the import before it looks for the declaration: for the function
  \<^verbatim>\<open>missing\<close>, which \<^verbatim>\<open>src/f.ts\<close> does not declare, the report is the claimed
  \<open>Function declaration not found\<close>, and the import statement has been written to the
  source file all the same.
\<close>

theorem addParameter_unimplemented_after_import_edit:
  "addParameter tableFindMatches fProject addContextToMissing =
     Inr (reportUnimplemented addContextToMissing ''Function declaration not found'',
          [\<lparr> inMatch = fSourceFileMatch, target = fSourceFile,
              newValue = ''import { HandlerContext } from ''
                         @ doubleQuoted ''@atomist/automation-client'' @ '';'' @ [CHR 0x0A]
                         @ nodeValue fSourceFile \<rparr>])"
proof -
  have srcs: "tableFindMatches fProject ''src/f.ts'' ''/SourceFile'' = [fSourceFileMatch]"
    by (simp add: tableFindMatches_def fProject_def fSourceFileMatch_def)
  have t: "filePath (functionWithAdditionalParameter addContextToMissing) = ''src/f.ts''"
          "parameterType addContextToMissing = handlerContext"
    by (simp_all add: addContextToMissing_def)
  have decls: "tableFindMatches fProject (filePath (functionWithAdditionalParameter addContextToMissing))
                 (functionDeclarationPathExpression (functionWithAdditionalParameter addContextToMissing)) = []"
    by (simp add: tableFindMatches_def fProject_def addContextToMissing_def)
       (simp add: functionDeclarationPathExpression_def functionCallPathExpression_def
          scopePathExpressionComponents_def priv_def quoted_def)
  have imp: "addImport tableFindMatches fProject
               (filePath (functionWithAdditionalParameter addContextToMissing))
               (parameterType addContextToMissing)
             = Inr (True,
                [\<lparr> inMatch = fSourceFileMatch, target = fSourceFile,
                    newValue = ''import { HandlerContext } from ''
                               @ doubleQuoted ''@atomist/automation-client'' @ '';'' @ [CHR 0x0A]
                               @ nodeValue fSourceFile \<rparr>])"
    unfolding t
    by (rule addImport_fSourceFile[where findMatches = tableFindMatches and project = fProject, OF srcs])
  show ?thesis
    by (rule addParameter_cases(1)[where findMatches = tableFindMatches and project = fProject
          and r = addContextToMissing, OF imp decls refl])
qed


section \<open>Imports\<close>







section \<open>Termination of the worklist planner\<close>

lemma sameFunctionIdentifier_eq: "AddParameter_sameFunctionIdentifier a b = (a = b)"
  by (cases a; cases b) (auto simp: AddParameter_sameFunctionIdentifier_def)

lemma sameRequirement_key:
  "AddParameter_sameRequirement a b = (AddParameter_key a = AddParameter_key b)"
  by (auto simp: AddParameter_sameRequirement_def AddParameter_key_def sameFunctionIdentifier_eq
        AddParameter_isPassArgumentRequirement_def)

lemma key_withWhy: "AddParameter_key (AddParameter_withWhy r c) = AddParameter_key c"
  by (cases c) (simp_all add: AddParameter_withWhy_def AddParameter_key_def AddParameter_kind_def
      AddParameter_isPassArgumentRequirement_def)

lemma kind_cases:
  "AddParameter_kind r \<in> {''Add Parameter'', ''Pass Dummy In Tests'', ''Pass Argument''}"
  by (cases r) (simp_all add: AddParameter_kind_def)

lemma finite_identifiersOf:
  assumes fin: "finite D"
  shows "finite (identifiersOf D)"
proof -
  let ?f = "\<lambda>m. \<lparr> functionName = (case identifierOf (node m) of Inr n \<Rightarrow> n | Inl e \<Rightarrow> []),
                  functionFilePath = sourceLocationPath m \<rparr>"
  have "identifiersOf D \<subseteq> ?f ` D"
  proof
    fix x assume "x \<in> identifiersOf D"
    then obtain m n where m: "m \<in> D" and n: "identifierOf (node m) = Inr n"
      and x: "x = \<lparr> functionName = n, functionFilePath = sourceLocationPath m \<rparr>"
      by (auto simp: identifiersOf_def)
    from n x have "x = ?f m" by simp
    with m show "x \<in> ?f ` D" by blast
  qed
  then show ?thesis using fin by (meson finite_imageI finite_subset)
qed

lemma consequencesOfMatches_keys:
  "AddParameter_consequencesOfMatches r ms = Inr cs \<Longrightarrow> c \<in> set cs \<Longrightarrow>
     (AddParameter_kind c = ''Pass Argument'' \<and>
        AddParameter_functionWithAdditionalParameter c = AddParameter_functionWithAdditionalParameter r \<and>
        AddParameter_enclosingFunction c \<in> identifiersOf (set ms))
   \<or> (AddParameter_kind c = ''Add Parameter'' \<and>
        AddParameter_functionWithAdditionalParameter c \<in> identifiersOf (set ms))"
proof (induction ms arbitrary: cs)
  case Nil
  then show ?case by simp
next
  case (Cons m ms)
  from Cons.prems(1) obtain n others where
    n: "identifierOf (node m) = Inr n" and
    others: "AddParameter_consequencesOfMatches r ms = Inr others"
    by (auto simp: Let_def split: sum.splits)
  define here where "here = \<lparr> functionName = n, functionFilePath = sourceLocationPath m \<rparr>"
  have here_in: "here \<in> identifiersOf (set (m # ms))"
    using n by (auto simp: identifiersOf_def here_def)
  have mono: "identifiersOf (set ms) \<subseteq> identifiersOf (set (m # ms))"
    by (auto simp: identifiersOf_def)
  from Cons.prems n others have
    "c \<in> set others \<or>
     (\<exists>v. c = AddParameter_PassArgumentRequirement here
              (AddParameter_functionWithAdditionalParameter r) v AddParameter_NoReason)
     \<or> c = AddParameter_AddParameterRequirement here (AddParameter_parameterType r)
             (AddParameter_parameterName r) (AddParameter_dummyValue r) AddParameter_NoReason"
    by (auto simp: here_def Let_def split: list.splits)
  then show ?case
  proof (elim disjE exE)
    assume "c \<in> set others"
    with Cons.IH[OF others] mono show ?thesis by blast
  next
    fix v
    assume "c = AddParameter_PassArgumentRequirement here
                  (AddParameter_functionWithAdditionalParameter r) v AddParameter_NoReason"
    with here_in show ?thesis by (simp add: AddParameter_kind_def)
  next
    assume "c = AddParameter_AddParameterRequirement here (AddParameter_parameterType r)
                  (AddParameter_parameterName r) (AddParameter_dummyValue r) AddParameter_NoReason"
    with here_in show ?thesis by (simp add: AddParameter_kind_def)
  qed
qed

lemma findConsequencesOfOne_keys:
  assumes sub: "\<And>glob expr. set (findMatches project glob expr) \<subseteq> D"
      and F: "identifiersOf D \<subseteq> T" "identifiersOf D \<subseteq> E"
      and r: "AddParameter_key r \<in> generatedKeys T E"
      and cs: "AddParameter_findConsequencesOfOne findMatches project r = Inr cs"
  shows "AddParameter_key ` set cs \<subseteq> generatedKeys T E"
proof
  fix k assume "k \<in> AddParameter_key ` set cs"
  then obtain c where c: "c \<in> set cs" and k: "k = AddParameter_key c" by auto
  from r have tr: "AddParameter_functionWithAdditionalParameter r \<in> T"
    by (auto simp: generatedKeys_def AddParameter_key_def)
  show "k \<in> generatedKeys T E"
  proof (cases "AddParameter_isAddParameterRequirement r")
    case False
    with cs c show ?thesis by (simp add: AddParameter_findConsequencesOfOne_def)
  next
    case True
    let ?ms = "findMatches project ''src/**/*.ts''
                 (''//FunctionDeclaration['' @ AddParameter_functionCallPathExpression
                     (functionName (AddParameter_functionWithAdditionalParameter r)) @ '']'')"
    let ?dummy = "AddParameter_PassDummyInTestsRequirement
                    (AddParameter_functionWithAdditionalParameter r)
                    (AddParameter_dummyValue r) AddParameter_NoReason"
    from True cs obtain src where
      src: "AddParameter_consequencesOfMatches r ?ms = Inr src" and
      cs_eq: "cs = map (AddParameter_withWhy r) (src @ [?dummy])"
      by (auto simp: AddParameter_findConsequencesOfOne_def
            AddParameter_findConsequencesOfAddParameter_def Let_def split: sum.splits)
    from c cs_eq obtain c0 where c0: "c = AddParameter_withWhy r c0" and
      c0_in: "c0 \<in> set src \<or> c0 = ?dummy"
      by auto
    have k0: "k = AddParameter_key c0" using k c0 by (simp add: key_withWhy)
    have idsub: "identifiersOf (set ?ms) \<subseteq> identifiersOf D"
      using sub[of "''src/**/*.ts''"] by (fastforce simp: identifiersOf_def)
    from c0_in show ?thesis
    proof
      assume "c0 \<in> set src"
      from consequencesOfMatches_keys[OF src this] idsub F tr show ?thesis
        unfolding k0 generatedKeys_def AddParameter_key_def AddParameter_isPassArgumentRequirement_def
        by auto
    next
      assume "c0 = ?dummy"
      with tr show ?thesis
        unfolding k0 generatedKeys_def AddParameter_key_def AddParameter_isPassArgumentRequirement_def
        by (simp add: AddParameter_kind_def)
    qed
  qed
qed

lemma findConsequences_returns:
  assumes fin: "finite U"
      and closed: "\<And>r cs. AddParameter_key r \<in> U
                     \<Longrightarrow> AddParameter_findConsequencesOfOne findMatches project r = Inr cs
                     \<Longrightarrow> AddParameter_key ` set cs \<subseteq> U"
  shows "AddParameter_key ` set pending \<subseteq> U \<Longrightarrow> AddParameter_key ` set seen \<subseteq> U \<Longrightarrow>
         distinct (map AddParameter_key seen) \<Longrightarrow>
         \<exists>res. AddParameter_findConsequences findMatches project pending seen = Some res \<and>
               (\<forall>l. res = Inr l \<longrightarrow> distinct (map AddParameter_key l))"
proof (induction "card (U - AddParameter_key ` set seen)" arbitrary: pending seen rule: less_induct)
  case less
  from less.prems(1) show ?case
  proof (induction pending rule: rev_induct)
    case Nil
    show ?case using less.prems(3)
      by (subst AddParameter_findConsequences.simps) simp
  next
    case (snoc x xs)
    show ?case
    proof (cases "list_ex (\<lambda>other. AddParameter_sameRequirement other x) seen")
      case True
      have "AddParameter_findConsequences findMatches project (xs @ [x]) seen
              = AddParameter_findConsequences findMatches project xs seen"
        using True by (subst AddParameter_findConsequences.simps) simp
      moreover have "AddParameter_key ` set xs \<subseteq> U" using snoc.prems by auto
      ultimately show ?thesis using snoc.IH by simp
    next
      case False
      then have notin: "AddParameter_key x \<notin> AddParameter_key ` set seen"
        by (auto simp: list_ex_iff sameRequirement_key)
      have xU: "AddParameter_key x \<in> U" using snoc.prems by auto
      show ?thesis
      proof (cases "AddParameter_findConsequencesOfOne findMatches project x")
        case (Inl e)
        have "AddParameter_findConsequences findMatches project (xs @ [x]) seen = Some (Inl e)"
          using False Inl by (subst AddParameter_findConsequences.simps) simp
        then show ?thesis by simp
      next
        case (Inr cs)
        have step: "AddParameter_findConsequences findMatches project (xs @ [x]) seen
              = AddParameter_findConsequences findMatches project (xs @ cs) (seen @ [x])"
          using False Inr by (subst AddParameter_findConsequences.simps) simp
        have "U - AddParameter_key ` set (seen @ [x]) \<subset> U - AddParameter_key ` set seen"
          using xU notin by auto
        then have dec: "card (U - AddParameter_key ` set (seen @ [x]))
                          < card (U - AddParameter_key ` set seen)"
          using fin by (simp add: psubset_card_mono)
        have p1: "AddParameter_key ` set (xs @ cs) \<subseteq> U"
          using snoc.prems closed[OF xU Inr] by auto
        have p2: "AddParameter_key ` set (seen @ [x]) \<subseteq> U"
          using less.prems(2) xU by auto
        have p3: "distinct (map AddParameter_key (seen @ [x]))"
          using less.prems(3) notin by simp
        from less.hyps[OF dec p1 p2 p3] show ?thesis unfolding step .
      qed
    qed
  qed
qed

text \<open>
  C4. Let the query engine answer every query on the project from one finite set of
  match results (a finite project). Then \<open>AddParameter_findConsequences\<close>, started
  on any list of requirements with nothing planned, returns: either the rejection of a
  consequence finder or a list of planned requirements, and in that list no two
  requirements compare equal under \<open>AddParameter_sameRequirement\<close>. The comparison does
  not read the \<^verbatim>\<open>why\<close> field, and a requirement taken from the worklist that equals a
  planned one is dropped without being expanded.
\<close>

theorem AddParameter_findConsequences_terminates_without_duplicates:
  assumes fin: "finite D"
      and sub: "\<And>glob expr. set (findMatches project glob expr) \<subseteq> D"
  shows "(\<exists>result. AddParameter_findConsequences findMatches project pending [] = Some result \<and>
            (\<forall>planned. result = Inr planned \<longrightarrow>
               (\<forall>i j. i < j \<and> j < length planned \<longrightarrow>
                  \<not> AddParameter_sameRequirement (planned ! i) (planned ! j))))
       \<and> (\<forall>a b w. AddParameter_sameRequirement (AddParameter_withWhy w a) b
                    = AddParameter_sameRequirement a b)
       \<and> (\<forall>rest thisOne seen.
             list_ex (\<lambda>other. AddParameter_sameRequirement other thisOne) seen \<longrightarrow>
             AddParameter_findConsequences findMatches project (rest @ [thisOne]) seen
               = AddParameter_findConsequences findMatches project rest seen)"
proof (intro conjI allI impI)
  define T where "T = identifiersOf D \<union> AddParameter_functionWithAdditionalParameter ` set pending"
  define E where "E = identifiersOf D \<union> AddParameter_enclosingFunction ` set pending"
  define U where "U = generatedKeys T E"
  have finU: "finite U"
    using fin by (simp add: U_def generatedKeys_def T_def E_def finite_identifiersOf)
  have closed: "\<And>r cs. AddParameter_key r \<in> U
                  \<Longrightarrow> AddParameter_findConsequencesOfOne findMatches project r = Inr cs
                  \<Longrightarrow> AddParameter_key ` set cs \<subseteq> U"
    unfolding U_def
    by (rule findConsequencesOfOne_keys[where D = D and findMatches = findMatches and project = project])
       (use sub in \<open>auto simp: T_def E_def\<close>)
  have init: "AddParameter_key ` set pending \<subseteq> U"
    using kind_cases
    by (auto simp: U_def generatedKeys_def AddParameter_key_def T_def E_def)
  have "\<exists>res. AddParameter_findConsequences findMatches project pending [] = Some res \<and>
               (\<forall>l. res = Inr l \<longrightarrow> distinct (map AddParameter_key l))"
  proof (rule findConsequences_returns[where U = U and findMatches = findMatches and project = project])
    show "finite U" by (rule finU)
    show "AddParameter_key ` set cs \<subseteq> U"
      if "AddParameter_key r \<in> U" "AddParameter_findConsequencesOfOne findMatches project r = Inr cs"
      for r cs
      using that by (rule closed)
    show "AddParameter_key ` set pending \<subseteq> U" by (rule init)
  qed simp_all
  then obtain res where
    res: "AddParameter_findConsequences findMatches project pending [] = Some res" and
    dist: "\<forall>l. res = Inr l \<longrightarrow> distinct (map AddParameter_key l)"
    by auto
  have "\<forall>planned. res = Inr planned \<longrightarrow>
              (\<forall>i j. i < j \<and> j < length planned \<longrightarrow>
                 \<not> AddParameter_sameRequirement (planned ! i) (planned ! j))"
  proof (intro allI impI)
    fix planned i j assume "res = Inr planned" and ij: "i < j \<and> j < length planned"
    with dist have "distinct (map AddParameter_key planned)" by simp
    with ij have "AddParameter_key (planned ! i) \<noteq> AddParameter_key (planned ! j)"
      by (auto simp: distinct_conv_nth)
    then show "\<not> AddParameter_sameRequirement (planned ! i) (planned ! j)"
      by (simp add: sameRequirement_key)
  qed
  with res show "\<exists>result. AddParameter_findConsequences findMatches project pending [] = Some result \<and>
            (\<forall>planned. result = Inr planned \<longrightarrow>
               (\<forall>i j. i < j \<and> j < length planned \<longrightarrow>
                  \<not> AddParameter_sameRequirement (planned ! i) (planned ! j)))"
    by blast
next
  fix a b w
  show "AddParameter_sameRequirement (AddParameter_withWhy w a) b = AddParameter_sameRequirement a b"
    by (simp add: sameRequirement_key key_withWhy)
next
  fix rest thisOne seen
  assume "list_ex (\<lambda>other. AddParameter_sameRequirement other thisOne) seen"
  then show "AddParameter_findConsequences findMatches project (rest @ [thisOne]) seen
               = AddParameter_findConsequences findMatches project rest seen"
    by (subst AddParameter_findConsequences.simps) simp
qed

lemma tableFindMatches_answers: "set (tableFindMatches project glob expr) \<subseteq> answersOf project"
proof (cases "map_of project (glob, expr)")
  case None
  then show ?thesis by (simp add: tableFindMatches_def)
next
  case (Some ms)
  then have "((glob, expr), ms) \<in> set project" by (rule map_of_SomeD)
  then show ?thesis using Some by (force simp: tableFindMatches_def answersOf_def)
qed

lemma finite_answersOf: "finite (answersOf project)"
  by (simp add: answersOf_def)


lemma AddParameter_findConsequencesOfOne_of_matches:
  assumes "findMatches project ''src/**/*.ts''
             (''//FunctionDeclaration['' @ AddParameter_functionCallPathExpression (functionName f) @ '']'')
           = ms"
      and "AddParameter_consequencesOfMatches (AddParameter_AddParameterRequirement f t n d w) ms = Inr src"
  shows "AddParameter_findConsequencesOfOne findMatches project (AddParameter_AddParameterRequirement f t n d w)
           = Inr (map (AddParameter_withWhy (AddParameter_AddParameterRequirement f t n d w))
                    (src @ [AddParameter_PassDummyInTestsRequirement f d AddParameter_NoReason]))"
proof -
  have "AddParameter_findConsequencesOfAddParameter findMatches project
          (AddParameter_AddParameterRequirement f t n d w)
        = Inr (src @ [AddParameter_PassDummyInTestsRequirement f d AddParameter_NoReason])"
    unfolding AddParameter_findConsequencesOfAddParameter_def Let_def
      AddParameter_Requirement.sel assms
    by simp
  then show ?thesis
    by (simp add: AddParameter_findConsequencesOfOne_def AddParameter_isAddParameterRequirement_def
          AddParameter_kind_def)
qed

lemma fWorklist_matches:
  "tableFindMatches fWorklistProject ''src/**/*.ts''
     (''//FunctionDeclaration['' @ AddParameter_functionCallPathExpression ''priv'' @ '']'')
     = [iShouldChangeMatch]"
  "tableFindMatches fWorklistProject ''src/**/*.ts''
     (''//FunctionDeclaration['' @ AddParameter_functionCallPathExpression ''iShouldChange'' @ '']'')
     = []"
  by (simp_all add: tableFindMatches_def fWorklistProject_def AddParameter_functionCallPathExpression_def
        quoted_def)

lemma fWorklist_consequences:
  "AddParameter_findConsequencesOfOne tableFindMatches fWorklistProject originalRequirement
     = Inr [addContextToIShouldChange, passContextInIShouldChange, dummyForPriv]"
  "AddParameter_findConsequencesOfOne tableFindMatches fWorklistProject addContextToIShouldChange
     = Inr [dummyForIShouldChange]"
  "AddParameter_findConsequencesOfOne tableFindMatches fWorklistProject passContextInIShouldChange = Inr []"
  "AddParameter_findConsequencesOfOne tableFindMatches fWorklistProject dummyForPriv = Inr []"
  "AddParameter_findConsequencesOfOne tableFindMatches fWorklistProject dummyForIShouldChange = Inr []"
proof -
  have i: "identifierOf (node iShouldChangeMatch) = Inr ''iShouldChange''"
    by (simp add: identifierOf_def childrenNamed_def iShouldChangeMatch_def iShouldChangeDeclaration_def)
  have s: "suitableParameterMatches (node iShouldChangeMatch) ''HandlerContext'' = []"
    by (simp add: suitableParameterMatches_def childAxis_def childrenNamed_def iShouldChangeMatch_def
          iShouldChangeDeclaration_def)
  have p: "sourceLocationPath iShouldChangeMatch = ''src/f.ts''"
    by (simp add: iShouldChangeMatch_def)
  have m1: "tableFindMatches fWorklistProject ''src/**/*.ts''
             (''//FunctionDeclaration['' @ AddParameter_functionCallPathExpression (functionName AddParameter_priv) @ '']'')
           = [iShouldChangeMatch]"
    using fWorklist_matches(1) by (simp add: AddParameter_priv_def)
  have m2: "tableFindMatches fWorklistProject ''src/**/*.ts''
             (''//FunctionDeclaration['' @ AddParameter_functionCallPathExpression (functionName AddParameter_iShouldChange) @ '']'')
           = []"
    using fWorklist_matches(2) by (simp add: AddParameter_iShouldChange_def)
  have c1: "AddParameter_consequencesOfMatches
              (AddParameter_AddParameterRequirement AddParameter_priv
                 (LocalImport ''HandlerContext'' ''src/HandlerContext'' None) ''context''
                 ''{} as HandlerContext'' (AddParameter_Reason ''I want to use the context in here''))
              [iShouldChangeMatch]
            = Inr [AddParameter_AddParameterRequirement AddParameter_iShouldChange
                     (LocalImport ''HandlerContext'' ''src/HandlerContext'' None) ''context''
                     ''{} as HandlerContext'' AddParameter_NoReason,
                   AddParameter_PassArgumentRequirement AddParameter_iShouldChange AddParameter_priv
                     ''context'' AddParameter_NoReason]"
    by (simp add: i s p AddParameter_iShouldChange_def Let_def)
  show "AddParameter_findConsequencesOfOne tableFindMatches fWorklistProject originalRequirement
     = Inr [addContextToIShouldChange, passContextInIShouldChange, dummyForPriv]"
    unfolding originalRequirement_def
    by (subst AddParameter_findConsequencesOfOne_of_matches[where findMatches = tableFindMatches
             and project = fWorklistProject and f = AddParameter_priv, OF m1 c1])
       (simp add: AddParameter_withWhy_def addContextToIShouldChange_def
          passContextInIShouldChange_def dummyForPriv_def originalRequirement_def)
  show "AddParameter_findConsequencesOfOne tableFindMatches fWorklistProject addContextToIShouldChange
     = Inr [dummyForIShouldChange]"
    unfolding addContextToIShouldChange_def
    by (subst AddParameter_findConsequencesOfOne_of_matches[where findMatches = tableFindMatches
             and project = fWorklistProject and f = AddParameter_iShouldChange and src = "[]", OF m2])
       (simp_all add: AddParameter_withWhy_def dummyForIShouldChange_def addContextToIShouldChange_def)
  show "AddParameter_findConsequencesOfOne tableFindMatches fWorklistProject passContextInIShouldChange = Inr []"
       "AddParameter_findConsequencesOfOne tableFindMatches fWorklistProject dummyForPriv = Inr []"
       "AddParameter_findConsequencesOfOne tableFindMatches fWorklistProject dummyForIShouldChange = Inr []"
    by (simp_all add: AddParameter_findConsequencesOfOne_def AddParameter_isAddParameterRequirement_def
          AddParameter_kind_def passContextInIShouldChange_def dummyForPriv_def dummyForIShouldChange_def)
qed

lemma fWorklist_keys:
  "AddParameter_key originalRequirement = (''Add Parameter'', AddParameter_priv, None)"
  "AddParameter_key addContextToIShouldChange = (''Add Parameter'', AddParameter_iShouldChange, None)"
  "AddParameter_key passContextInIShouldChange
     = (''Pass Argument'', AddParameter_priv, Some AddParameter_iShouldChange)"
  "AddParameter_key dummyForPriv = (''Pass Dummy In Tests'', AddParameter_priv, None)"
  "AddParameter_key dummyForIShouldChange = (''Pass Dummy In Tests'', AddParameter_iShouldChange, None)"
  by (simp_all add: AddParameter_key_def AddParameter_kind_def AddParameter_isPassArgumentRequirement_def
        originalRequirement_def addContextToIShouldChange_def passContextInIShouldChange_def
        dummyForPriv_def dummyForIShouldChange_def)

lemma fWorklist_planned:
  "AddParameter_findConsequences tableFindMatches fWorklistProject [originalRequirement] []
     = Some (Inr [originalRequirement, dummyForPriv, passContextInIShouldChange,
                  addContextToIShouldChange, dummyForIShouldChange])"
proof -
  have ne: "AddParameter_priv \<noteq> AddParameter_iShouldChange"
    by (simp add: AddParameter_priv_def AddParameter_iShouldChange_def)
  note ev = fWorklist_consequences sameRequirement_key fWorklist_keys ne
  show ?thesis
    apply (subst AddParameter_findConsequences.simps, simp add: ev)
    apply (subst AddParameter_findConsequences.simps, simp add: ev)
    apply (subst AddParameter_findConsequences.simps, simp add: ev)
    apply (subst AddParameter_findConsequences.simps, simp add: ev)
    apply (subst AddParameter_findConsequences.simps, simp add: ev)
    apply (subst AddParameter_findConsequences.simps, simp add: ev)
    done
qed

theorem AddParameter_findConsequences_terminates_without_duplicates_witness:
  "finite (answersOf fWorklistProject)
   \<and> AddParameter_findConsequences tableFindMatches fWorklistProject [originalRequirement] []
       = Some (Inr [originalRequirement, dummyForPriv, passContextInIShouldChange,
                    addContextToIShouldChange, dummyForIShouldChange])
   \<and> \<not> AddParameter_sameRequirement originalRequirement addContextToIShouldChange
   \<and> \<not> AddParameter_sameRequirement dummyForPriv dummyForIShouldChange
   \<and> \<not> AddParameter_sameRequirement originalRequirement passContextInIShouldChange
   \<and> list_ex (\<lambda>other. AddParameter_sameRequirement other addContextToIShouldChange)
        [originalRequirement, addContextToIShouldChange]
   \<and> AddParameter_findConsequences tableFindMatches fWorklistProject
        ([] @ [addContextToIShouldChange]) [originalRequirement, addContextToIShouldChange]
       = Some (Inr [originalRequirement, addContextToIShouldChange])"
proof -
  have sub: "\<And>glob expr. set (tableFindMatches fWorklistProject glob expr) \<subseteq> answersOf fWorklistProject"
    by (rule tableFindMatches_answers)
  note main = AddParameter_findConsequences_terminates_without_duplicates[
      where D = "answersOf fWorklistProject" and findMatches = tableFindMatches
        and project = fWorklistProject and pending = "[originalRequirement]",
      OF finite_answersOf sub]
  let ?planned = "[originalRequirement, dummyForPriv, passContextInIShouldChange,
                   addContextToIShouldChange, dummyForIShouldChange]"
  from main[THEN conjunct1] fWorklist_planned
  have distinct: "\<forall>i j. i < j \<and> j < length ?planned \<longrightarrow>
         \<not> AddParameter_sameRequirement (?planned ! i) (?planned ! j)"
    by auto
  have d03: "\<not> AddParameter_sameRequirement originalRequirement addContextToIShouldChange"
    using distinct[rule_format, of 0 3] by simp
  have d14: "\<not> AddParameter_sameRequirement dummyForPriv dummyForIShouldChange"
    using distinct[rule_format, of 1 4] by simp
  have d02: "\<not> AddParameter_sameRequirement originalRequirement passContextInIShouldChange"
    using distinct[rule_format, of 0 2] by simp
  have same: "list_ex (\<lambda>other. AddParameter_sameRequirement other addContextToIShouldChange)
                [originalRequirement, addContextToIShouldChange]"
    by (simp add: sameRequirement_key)
  have "AddParameter_findConsequences tableFindMatches fWorklistProject
          [] [originalRequirement, addContextToIShouldChange]
        = Some (Inr [originalRequirement, addContextToIShouldChange])"
    by (subst AddParameter_findConsequences.simps) simp
  with main[THEN conjunct2, THEN conjunct2, rule_format, OF same, of "[]"]
  have dropped: "AddParameter_findConsequences tableFindMatches fWorklistProject
        ([] @ [addContextToIShouldChange]) [originalRequirement, addContextToIShouldChange]
       = Some (Inr [originalRequirement, addContextToIShouldChange])"
    by simp
  show ?thesis
    by (intro conjI finite_answersOf fWorklist_planned d03 d14 d02 same dropped)
qed


end
